theory Spec2Isabelle
  imports Complex_Main "HOL-Library.AList" "HOL-Library.List_Lexorder" "HOL-Library.Char_ord"
begin

section \<open>Python values, exceptions and library functions\<close>

text \<open>
  The pipeline passes transactions around as Python dictionaries whose values come from
  \<^verbatim>\<open>json.loads\<close>.  A dictionary is an association list in insertion order with
  distinct keys: \<^verbatim>\<open>d[k]\<close> is \<open>map_of d k\<close> and \<^verbatim>\<open>d[k] = v\<close> is \<open>AList.update k v d\<close>
  (replace in place, or append a new key at the end), which is what a Python dict does.

  A finite Python \<^verbatim>\<open>float\<close> is idealised as the real number it denotes, with exact
  arithmetic: \<open>PFloat x\<close>.  The three other floats, \<^verbatim>\<open>nan\<close>, \<^verbatim>\<open>inf\<close> and \<^verbatim>\<open>-inf\<close>, which
  \<^verbatim>\<open>json.loads\<close> and \<^verbatim>\<open>float()\<close> both produce, are \<open>PNonFinite\<close> values.
\<close>

datatype nonfinite = NaN | PosInf | NegInf

datatype pyfloat = Finite real | NonFinite nonfinite

datatype pyval =
    PNone
  | PBool bool
  | PInt int
  | PFloat real
  | PNonFinite nonfinite
  | PStr string
  | PList "pyval list"
  | PDict "(string \<times> pyval) list"

type_synonym pydict = "(string \<times> pyval) list"

text \<open>The messages of the \<^verbatim>\<open>ValueError\<close>s that the preprocessor raises.\<close>

datatype verr =
    InvalidTransaction        \<comment> \<open>"Invalid transaction: ..." (schema)\<close>
  | TypeCastingError          \<comment> \<open>"Type casting error: ..."\<close>
  | UnableToParseTimestamp    \<comment> \<open>"Unable to parse timestamp: ..."\<close>
  | InvalidTimestampType      \<comment> \<open>"Invalid timestamp type: ..."\<close>
  | AmountMustBePositive      \<comment> \<open>"Amount must be positive: ..."\<close>
  | TimestampOutOfRange       \<comment> \<open>"Timestamp out of range: ..."\<close>
  | InvalidLatitude           \<comment> \<open>"Invalid latitude: ..."\<close>
  | InvalidLongitude          \<comment> \<open>"Invalid longitude: ..."\<close>
  | InvalidLiteral            \<comment> \<open>raised by \<^verbatim>\<open>float(s)\<close> and \<^verbatim>\<open>int(s)\<close> on a bad string, and by
                                  \<^verbatim>\<open>int(x)\<close> on the float \<^verbatim>\<open>nan\<close>\<close>

datatype exn =
    ValueError verr
  | TypeError
  | KeyError
  | AttributeError
  | OverflowError
  | RecursionError
  | JSONDecodeError
  | UnicodeDecodeError
  | RedisError
  | NonFiniteArithmetic

definition bind_exc :: "exn + 'a \<Rightarrow> ('a \<Rightarrow> exn + 'b) \<Rightarrow> exn + 'b" where
  "bind_exc m f = (case m of Inl e \<Rightarrow> Inl e | Inr x \<Rightarrow> f x)"

text \<open>
  \<open>NonFiniteArithmetic\<close> is not a Python exception.  The feature store and the extractor are
  modelled on finite floats; where a \<^verbatim>\<open>nan\<close> or an infinity reaches their arithmetic, Python
  goes on computing with it and the model stops with this value instead.  The preprocessor
  is modelled on all floats.

  Functions of the Python standard library that the repository calls but does not define
  are parameters of the model.
\<close>

record pylib =
  py_repr :: "pyval \<Rightarrow> string"
    \<comment> \<open>\<^verbatim>\<open>str(v)\<close> and \<^verbatim>\<open>f"{v}"\<close> for a value \<open>v\<close> that is not a \<^verbatim>\<open>str\<close>\<close>
  float_of_str :: "string \<Rightarrow> pyfloat option"
    \<comment> \<open>\<^verbatim>\<open>float(s)\<close>; \<open>None\<close> is its ValueError\<close>
  epoch_of_str :: "string \<Rightarrow> int option"
    \<comment> \<open>\<^verbatim>\<open>datetime.fromisoformat\<close>, then \<^verbatim>\<open>datetime.strptime\<close>, then \<^verbatim>\<open>int(dt.timestamp())\<close>;
        \<open>None\<close> when both parsers raise ValueError\<close>
  utc_offset :: "int \<Rightarrow> int"
    \<comment> \<open>offset from UTC, in seconds, of the process's local time zone at an epoch second
        (\<^verbatim>\<open>datetime.fromtimestamp\<close> answers in local time)\<close>
  json_dumps :: "pyval \<Rightarrow> string"
  json_loads :: "string \<Rightarrow> exn + pyval"
    \<comment> \<open>\<^verbatim>\<open>json.loads(s)\<close>: the value, or the exception raised.  Text that is not JSON raises
        \<^verbatim>\<open>JSONDecodeError\<close>; brackets nested deeper than the interpreter's recursion limit
        raise \<^verbatim>\<open>RecursionError\<close>, and an integer literal of more digits than the interpreter
        converts raises a plain \<^verbatim>\<open>ValueError\<close>\<close>
  utf8_decodable :: "string \<Rightarrow> bool"
    \<comment> \<open>whether the bytes are valid UTF-8; the Redis client is created with
        \<^verbatim>\<open>decode_responses=True\<close> and raises \<^verbatim>\<open>UnicodeDecodeError\<close> on a reply that is not\<close>

definition py_str :: "pylib \<Rightarrow> pyval \<Rightarrow> string" where
  "py_str L v = (case v of PStr s \<Rightarrow> s | _ \<Rightarrow> py_repr L v)"

text \<open>
  \<^verbatim>\<open>round(x, n)\<close> on a float: the nearest multiple of \<open>10\<^sup>-\<^sup>n\<close>, a tie going to the
  even neighbour.
\<close>

definition round_half_even :: "real \<Rightarrow> int" where
  "round_half_even x =
     (let f = \<lfloor>x\<rfloor>; d = x - of_int f
      in if d < 1/2 then f
         else if 1/2 < d then f + 1
         else if even f then f else f + 1)"

definition py_round :: "real \<Rightarrow> nat \<Rightarrow> real" where
  "py_round x n = of_int (round_half_even (x * 10 ^ n)) / 10 ^ n"

section \<open>The Redis server as seen through its client\<close>

text \<open>
  A string held by Redis is modelled by what it denotes to \<^verbatim>\<open>int()\<close> and \<^verbatim>\<open>float()\<close>:
  \<open>RInt n\<close> is the decimal text of the integer \<open>n\<close> (what the client writes for an
  \<^verbatim>\<open>int\<close>), \<open>RFloat x\<close> the text of the float \<open>x\<close> (what it writes for a \<^verbatim>\<open>float\<close>), and
  \<open>RText s\<close> any other text \<open>s\<close>, empty or not, that neither conversion accepts.
\<close>

datatype rstr = RInt int | RFloat real | RText string

text \<open>Truthiness of an \<^verbatim>\<open>Optional[str]\<close> reply: \<^verbatim>\<open>None\<close> and \<^verbatim>\<open>''\<close> are false.\<close>

definition truthy :: "rstr option \<Rightarrow> bool" where
  "truthy reply = (case reply of None \<Rightarrow> False | Some (RText s) \<Rightarrow> s \<noteq> [] | Some _ \<Rightarrow> True)"

definition float_of_reply :: "rstr option \<Rightarrow> exn + real" where
  "float_of_reply reply =
     (case reply of
        None \<Rightarrow> Inl TypeError
      | Some (RInt n) \<Rightarrow> Inr (of_int n)
      | Some (RFloat x) \<Rightarrow> Inr x
      | Some (RText s) \<Rightarrow> Inl (ValueError InvalidLiteral))"

definition int_of_reply :: "rstr option \<Rightarrow> exn + int" where
  "int_of_reply reply =
     (case reply of
        None \<Rightarrow> Inl TypeError
      | Some (RInt n) \<Rightarrow> Inr n
      | Some (RFloat x) \<Rightarrow> Inl (ValueError InvalidLiteral)
      | Some (RText s) \<Rightarrow> Inl (ValueError InvalidLiteral))"

text \<open>
  The server state: hashes (field order is irrelevant, an association list), sorted
  sets (member and score, kept ordered by score and then by member), plain sets, and the
  time to live last set on each key.  \<open>connected\<close> says whether commands get through; when
  they do not, every command raises \<^verbatim>\<open>redis.RedisError\<close>.
\<close>

record redis =
  connected :: bool
  hashes :: "string \<Rightarrow> (string \<times> rstr) list"
  zsets :: "string \<Rightarrow> (string \<times> int) list"
  sets :: "string \<Rightarrow> string set"
  ttls :: "string \<Rightarrow> int option"

definition hget :: "redis \<Rightarrow> string \<Rightarrow> string \<Rightarrow> exn + rstr option" where
  "hget r key field = (if connected r then Inr (map_of (hashes r key) field) else Inl RedisError)"

definition hgetall :: "redis \<Rightarrow> string \<Rightarrow> exn + (string \<times> rstr) list" where
  "hgetall r key = (if connected r then Inr (hashes r key) else Inl RedisError)"

definition hset :: "redis \<Rightarrow> string \<Rightarrow> string \<Rightarrow> rstr \<Rightarrow> exn + redis" where
  "hset r key field v =
     (if connected r
      then Inr (r\<lparr>hashes := (hashes r)(key := AList.update field v (hashes r key))\<rparr>)
      else Inl RedisError)"

definition expire :: "redis \<Rightarrow> string \<Rightarrow> int \<Rightarrow> exn + redis" where
  "expire r key ttl =
     (if connected r then Inr (r\<lparr>ttls := (ttls r)(key \<mapsto> ttl)\<rparr>) else Inl RedisError)"

fun zinsert :: "string \<times> int \<Rightarrow> (string \<times> int) list \<Rightarrow> (string \<times> int) list" where
  "zinsert e [] = [e]"
| "zinsert e (e' # es) =
     (if snd e < snd e' \<or> (snd e = snd e' \<and> fst e < fst e')
      then e # e' # es
      else e' # zinsert e es)"

definition zadd :: "redis \<Rightarrow> string \<Rightarrow> string \<Rightarrow> int \<Rightarrow> exn + redis" where
  "zadd r key member score =
     (if connected r
      then Inr (r\<lparr>zsets := (zsets r)
                  (key := zinsert (member, score) (filter (\<lambda>e. fst e \<noteq> member) (zsets r key)))\<rparr>)
      else Inl RedisError)"

text \<open>\<^verbatim>\<open>ZRANGEBYSCORE key lo hi\<close>: both bounds inclusive.\<close>

definition zrangebyscore :: "redis \<Rightarrow> string \<Rightarrow> int \<Rightarrow> int \<Rightarrow> exn + string list" where
  "zrangebyscore r key lo hi =
     (if connected r
      then Inr (map fst (filter (\<lambda>e. lo \<le> snd e \<and> snd e \<le> hi) (zsets r key)))
      else Inl RedisError)"

text \<open>\<^verbatim>\<open>ZREMRANGEBYSCORE key -inf hi\<close>: the upper bound is inclusive.\<close>

definition zremrangebyscore_neg_inf :: "redis \<Rightarrow> string \<Rightarrow> int \<Rightarrow> exn + redis" where
  "zremrangebyscore_neg_inf r key hi =
     (if connected r
      then Inr (r\<lparr>zsets := (zsets r)(key := filter (\<lambda>e. \<not> snd e \<le> hi) (zsets r key))\<rparr>)
      else Inl RedisError)"

definition sadd :: "redis \<Rightarrow> string \<Rightarrow> string \<Rightarrow> exn + redis" where
  "sadd r key member =
     (if connected r
      then Inr (r\<lparr>sets := (sets r)(key := insert member (sets r key))\<rparr>)
      else Inl RedisError)"

definition scard :: "redis \<Rightarrow> string \<Rightarrow> exn + nat" where
  "scard r key = (if connected r then Inr (card (sets r key)) else Inl RedisError)"

section \<open>FeatureStore (feature\_store.py)\<close>

definition stats_key :: "string \<Rightarrow> string" where
  "stats_key card_id = ''card:'' @ card_id @ '':stats''"

definition tx_history_key :: "string \<Rightarrow> string" where
  "tx_history_key card_id = ''card:'' @ card_id @ '':tx_history''"

definition merchants_key :: "string \<Rightarrow> string" where
  "merchants_key card_id = ''card:'' @ card_id @ '':merchants:24h''"

definition merchant_features_key :: "string \<Rightarrow> string" where
  "merchant_features_key merchant_id = ''features:merchant:'' @ merchant_id"

text \<open>
  Every method wraps its body in \<^verbatim>\<open>try ... except Exception\<close>; on an exception the
  Redis state is what it was (a command either reaches the server or raises).
\<close>

definition update_rolling_average :: "redis \<Rightarrow> string \<Rightarrow> real \<Rightarrow> real \<Rightarrow> real \<times> redis" where
  "update_rolling_average r card_id amount alpha =
     (let key = stats_key card_id in
      case bind_exc (hget r key ''avg_amount'') (\<lambda>old_avg_str.
           bind_exc (if truthy old_avg_str then float_of_reply old_avg_str else Inr 75) (\<lambda>old_avg.
           let new_avg = alpha * amount + (1 - alpha) * old_avg in
           bind_exc (hset r key ''avg_amount'' (RFloat new_avg)) (\<lambda>r1.
           bind_exc (expire r1 key 2592000) (\<lambda>r2.
           Inr (new_avg, r2)))))
      of Inl e \<Rightarrow> (75, r)
       | Inr res \<Rightarrow> res)"

definition get_rolling_average :: "redis \<Rightarrow> string \<Rightarrow> real option" where
  "get_rolling_average r card_id =
     (let key = stats_key card_id in
      case bind_exc (hget r key ''avg_amount'') (\<lambda>avg_str.
           if truthy avg_str then map_sum id Some (float_of_reply avg_str) else Inr None)
      of Inl e \<Rightarrow> None
       | Inr res \<Rightarrow> res)"

text \<open>
  Reading a dictionary: \<^verbatim>\<open>d[k]\<close> raises KeyError on a missing key, \<^verbatim>\<open>d.get(k, default)\<close>
  does not.  Arithmetic on a value that is not a number raises TypeError; \<^verbatim>\<open>bool\<close> is a
  subclass of \<^verbatim>\<open>int\<close>.  Where a signature of the source declares \<^verbatim>\<open>timestamp: int\<close>, the
  model accepts an \<^verbatim>\<open>int\<close> only (the preprocessor produces nothing else).
\<close>

definition item :: "pydict \<Rightarrow> string \<Rightarrow> exn + pyval" where
  "item d k = (case map_of d k of None \<Rightarrow> Inl KeyError | Some v \<Rightarrow> Inr v)"

definition dict_get :: "pydict \<Rightarrow> string \<Rightarrow> pyval \<Rightarrow> pyval" where
  "dict_get d k dflt = (case map_of d k of None \<Rightarrow> dflt | Some v \<Rightarrow> v)"

fun dict_update :: "pydict \<Rightarrow> pydict \<Rightarrow> pydict" where
  "dict_update d [] = d"
| "dict_update d ((k, v) # other) = dict_update (AList.update k v d) other"

definition as_real :: "pyval \<Rightarrow> exn + real" where
  "as_real v =
     (case v of
        PInt n \<Rightarrow> Inr (of_int n)
      | PBool b \<Rightarrow> Inr (if b then 1 else 0)
      | PFloat x \<Rightarrow> Inr x
      | PNonFinite n \<Rightarrow> Inl NonFiniteArithmetic
      | _ \<Rightarrow> Inl TypeError)"

definition as_int :: "pyval \<Rightarrow> exn + int" where
  "as_int v =
     (case v of
        PInt n \<Rightarrow> Inr n
      | PBool b \<Rightarrow> Inr (if b then 1 else 0)
      | _ \<Rightarrow> Inl TypeError)"

definition add_to_transaction_history ::
    "pylib \<Rightarrow> redis \<Rightarrow> string \<Rightarrow> pydict \<Rightarrow> int \<Rightarrow> bool \<times> redis" where
  "add_to_transaction_history L r card_id transaction ttl =
     (let key = tx_history_key card_id in
      case bind_exc (item transaction ''timestamp'') (\<lambda>timestamp.
           bind_exc (item transaction ''amount'') (\<lambda>amount.
           bind_exc (item transaction ''merchant_id'') (\<lambda>merchant_id.
           let tx_data = json_dumps L (PDict [(''amount'', amount),
                                              (''merchant_id'', merchant_id),
                                              (''timestamp'', timestamp)]) in
           bind_exc (as_int timestamp) (\<lambda>score.
           bind_exc (zadd r key tx_data score) (\<lambda>r1.
           bind_exc (expire r1 key ttl) (\<lambda>r2.
           let min_timestamp = score - ttl in
           bind_exc (zremrangebyscore_neg_inf r2 key min_timestamp) (\<lambda>r3.
           Inr r3)))))))
      of Inl e \<Rightarrow> (False, r)
       | Inr r' \<Rightarrow> (True, r'))"

text \<open>
  The client decodes every reply as UTF-8 (\<^verbatim>\<open>decode_responses=True\<close>) and raises on a reply
  that is not.
\<close>

definition decode_replies :: "pylib \<Rightarrow> string list \<Rightarrow> exn + string list" where
  "decode_replies L replies =
     (if list_all (utf8_decodable L) replies then Inr replies else Inl UnicodeDecodeError)"

text \<open>
  The loop of \<^verbatim>\<open>get_transaction_history\<close> over the replies, appending to \<open>transactions\<close>.
  Its \<^verbatim>\<open>except json.JSONDecodeError: continue\<close> skips that exception only; any other one
  leaves the loop and is caught by the method's outer \<^verbatim>\<open>except Exception\<close>, which returns
  the empty list.
\<close>

fun parse_entries :: "pylib \<Rightarrow> string list \<Rightarrow> pyval list \<Rightarrow> exn + pyval list" where
  "parse_entries L [] transactions = Inr transactions"
| "parse_entries L (tx_data # rest) transactions =
     (case json_loads L tx_data of
        Inr tx \<Rightarrow> parse_entries L rest (transactions @ [tx])
      | Inl JSONDecodeError \<Rightarrow> parse_entries L rest transactions
      | Inl e \<Rightarrow> Inl e)"

definition get_transaction_history ::
    "pylib \<Rightarrow> redis \<Rightarrow> string \<Rightarrow> int \<Rightarrow> int \<Rightarrow> pyval list" where
  "get_transaction_history L r card_id window_seconds current_timestamp =
     (let key = tx_history_key card_id;
          min_timestamp = current_timestamp - window_seconds in
      case bind_exc (zrangebyscore r key min_timestamp current_timestamp) (\<lambda>replies.
           bind_exc (decode_replies L replies) (\<lambda>tx_data_list.
           parse_entries L tx_data_list []))
      of Inl e \<Rightarrow> []
       | Inr transactions \<Rightarrow> transactions)"

definition add_merchant_to_set :: "redis \<Rightarrow> string \<Rightarrow> string \<Rightarrow> int \<Rightarrow> bool \<times> redis" where
  "add_merchant_to_set r card_id merchant_id ttl =
     (let key = merchants_key card_id in
      case bind_exc (sadd r key merchant_id) (\<lambda>r1. expire r1 key ttl)
      of Inl e \<Rightarrow> (False, r)
       | Inr r' \<Rightarrow> (True, r'))"

definition get_unique_merchant_count :: "redis \<Rightarrow> string \<Rightarrow> int \<Rightarrow> int" where
  "get_unique_merchant_count r card_id window_seconds =
     (let key = merchants_key card_id in
      case scard r key of Inl e \<Rightarrow> 0 | Inr n \<Rightarrow> int n)"

definition update_last_transaction_timestamp :: "redis \<Rightarrow> string \<Rightarrow> int \<Rightarrow> bool \<times> redis" where
  "update_last_transaction_timestamp r card_id timestamp =
     (let key = stats_key card_id in
      case bind_exc (hset r key ''last_tx_timestamp'' (RInt timestamp)) (\<lambda>r1.
           expire r1 key 2592000)
      of Inl e \<Rightarrow> (False, r)
       | Inr r' \<Rightarrow> (True, r'))"

definition get_last_transaction_timestamp :: "redis \<Rightarrow> string \<Rightarrow> int option" where
  "get_last_transaction_timestamp r card_id =
     (let key = stats_key card_id in
      case bind_exc (hget r key ''last_tx_timestamp'') (\<lambda>ts_str.
           if truthy ts_str then map_sum id Some (int_of_reply ts_str) else Inr None)
      of Inl e \<Rightarrow> None
       | Inr res \<Rightarrow> res)"

definition default_merchant_features :: pydict where
  "default_merchant_features =
     [(''risk_score'', PFloat (1/2)),
      (''fraud_rate'', PFloat (2/1000)),
      (''total_transactions'', PInt 100)]"

definition get_merchant_features :: "redis \<Rightarrow> string \<Rightarrow> pydict" where
  "get_merchant_features r merchant_id =
     (let key = merchant_features_key merchant_id in
      case bind_exc (hgetall r key) (\<lambda>features.
           if features = [] then Inr default_merchant_features
           else
             bind_exc (case map_of features ''risk_score'' of
                         None \<Rightarrow> Inr (1/2) | Some v \<Rightarrow> float_of_reply (Some v)) (\<lambda>risk_score.
             bind_exc (case map_of features ''fraud_rate'' of
                         None \<Rightarrow> Inr (2/1000) | Some v \<Rightarrow> float_of_reply (Some v)) (\<lambda>fraud_rate.
             bind_exc (case map_of features ''total_transactions'' of
                         None \<Rightarrow> Inr 100 | Some v \<Rightarrow> int_of_reply (Some v)) (\<lambda>total_transactions.
             Inr [(''risk_score'', PFloat risk_score),
                  (''fraud_rate'', PFloat fraud_rate),
                  (''total_transactions'', PInt total_transactions)]))))
      of Inl e \<Rightarrow> default_merchant_features
       | Inr res \<Rightarrow> res)"

section \<open>Configuration (config.py)\<close>

record feature_config =
  velocity_windows :: "(string \<times> int) list"
  rolling_avg_alpha :: real
  amount_clip_percentile :: real
  default_avg_amount :: real

definition FEATURE_CONFIG :: feature_config where
  "FEATURE_CONFIG =
     \<lparr>velocity_windows = [(''10m'', 600), (''1h'', 3600), (''24h'', 86400)],
      rolling_avg_alpha = 1/10,
      amount_clip_percentile = 99,
      default_avg_amount = 75\<rparr>"

section \<open>FeatureExtractor (feature\_extractor.py)\<close>

definition safe_log :: "real \<Rightarrow> real" where
  "safe_log v = ln (max v 0 + 1)"

definition compute_transaction_features :: "pydict \<Rightarrow> exn + pydict" where
  "compute_transaction_features transaction =
     bind_exc (item transaction ''amount'') (\<lambda>amount.
     bind_exc (as_real amount) (\<lambda>a.
     Inr [(''amount'', amount),
          (''amount_log'', PFloat (safe_log a)),
          (''merchant_category'', dict_get transaction ''merchant_category'' (PStr ''UNKNOWN'')),
          (''has_location'',
             PInt (if dict_get transaction ''location_lat'' PNone \<noteq> PNone then 1 else 0))]))"

text \<open>
  \<^verbatim>\<open>sum(tx.get('amount', 0) for tx in tx_history)\<close>: an entry that is not a dictionary has
  no \<^verbatim>\<open>get\<close>; a sum of \<^verbatim>\<open>int\<close>s is an \<^verbatim>\<open>int\<close>, and \<^verbatim>\<open>round\<close> leaves an \<^verbatim>\<open>int\<close> as it is.
\<close>

definition py_add :: "pyval \<Rightarrow> pyval \<Rightarrow> exn + pyval" where
  "py_add x y =
     (case (as_int x, as_int y) of
        (Inr a, Inr b) \<Rightarrow> Inr (PInt (a + b))
      | _ \<Rightarrow> bind_exc (as_real x) (\<lambda>a.
             bind_exc (as_real y) (\<lambda>b.
             Inr (PFloat (a + b)))))"

fun sum_amounts :: "pyval list \<Rightarrow> pyval \<Rightarrow> exn + pyval" where
  "sum_amounts [] subtotal = Inr subtotal"
| "sum_amounts (tx # rest) subtotal =
     (case tx of
        PDict d \<Rightarrow> bind_exc (py_add subtotal (dict_get d ''amount'' (PInt 0))) (sum_amounts rest)
      | _ \<Rightarrow> Inl AttributeError)"

definition py_round_val :: "pyval \<Rightarrow> nat \<Rightarrow> pyval" where
  "py_round_val v n = (case v of PFloat x \<Rightarrow> PFloat (py_round x n) | _ \<Rightarrow> v)"

fun velocity_loop ::
    "pylib \<Rightarrow> redis \<Rightarrow> string \<Rightarrow> int \<Rightarrow> (string \<times> int) list \<Rightarrow> pydict \<Rightarrow> exn + pydict" where
  "velocity_loop L r card_id current_timestamp [] features = Inr features"
| "velocity_loop L r card_id current_timestamp ((window_name, window_seconds) # windows) features =
     (let tx_history = get_transaction_history L r card_id window_seconds current_timestamp;
          features1 = AList.update (''tx_count_'' @ window_name)
                        (PInt (int (length tx_history))) features
      in bind_exc (sum_amounts tx_history (PInt 0)) (\<lambda>total_amount.
         velocity_loop L r card_id current_timestamp windows
           (AList.update (''total_amount_'' @ window_name) (py_round_val total_amount 2) features1)))"

definition compute_velocity_features ::
    "pylib \<Rightarrow> feature_config \<Rightarrow> redis \<Rightarrow> string \<Rightarrow> int \<Rightarrow> exn + pydict" where
  "compute_velocity_features L cfg r card_id current_timestamp =
     bind_exc (velocity_loop L r card_id current_timestamp (velocity_windows cfg) []) (\<lambda>features.
     bind_exc (case map_of (velocity_windows cfg) ''24h'' of
                 None \<Rightarrow> Inl KeyError | Some w \<Rightarrow> Inr w) (\<lambda>window_24h.
     let unique_merchants = get_unique_merchant_count r card_id window_24h;
         features1 = AList.update ''unique_merchants_24h'' (PInt unique_merchants) features;
         last_tx_timestamp = get_last_transaction_timestamp r card_id;
         time_since_last_tx =
           (case last_tx_timestamp of
              None \<Rightarrow> 0
            | Some l \<Rightarrow> if l \<noteq> 0 \<and> l > 0 then current_timestamp - l else 0)
     in Inr (AList.update ''time_since_last_tx'' (PInt time_since_last_tx) features1)))"

definition compute_rolling_features :: "feature_config \<Rightarrow> redis \<Rightarrow> string \<Rightarrow> real \<Rightarrow> pydict" where
  "compute_rolling_features cfg r card_id current_amount =
     (let stored = get_rolling_average r card_id;
          current_avg = (case stored of
                           None \<Rightarrow> default_avg_amount cfg
                         | Some avg \<Rightarrow> if avg = 0 then default_avg_amount cfg else avg);
          amount_deviation = (if current_avg > 0
                              then PFloat ((current_amount - current_avg) / current_avg)
                              else PInt 0)
      in [(''avg_tx_amount_30d'', PFloat (py_round current_avg 2)),
          (''amount_deviation'', py_round_val amount_deviation 3),
          (''amount_vs_avg_ratio'',
             PFloat (if current_avg > 0 then py_round (current_amount / current_avg) 3 else 1))])"

text \<open>
  \<^verbatim>\<open>datetime.fromtimestamp(timestamp)\<close> is the local wall clock; \<^verbatim>\<open>weekday()\<close> counts from
  Monday, and 1970-01-01 was a Thursday.
\<close>

definition compute_temporal_features :: "pylib \<Rightarrow> int \<Rightarrow> pydict" where
  "compute_temporal_features L timestamp =
     (let local_seconds = timestamp + utc_offset L timestamp;
          hour = (local_seconds mod 86400) div 3600;
          day_of_week = (local_seconds div 86400 + 3) mod 7
      in [(''hour_of_day'', PInt hour),
          (''day_of_week'', PInt day_of_week),
          (''is_weekend'', PInt (if day_of_week \<ge> 5 then 1 else 0)),
          (''is_night'', PInt (if hour \<ge> 22 \<or> hour < 6 then 1 else 0))])"

definition extract_features :: "pylib \<Rightarrow> feature_config \<Rightarrow> redis \<Rightarrow> pydict \<Rightarrow> exn + pydict" where
  "extract_features L cfg r transaction =
     bind_exc (item transaction ''card_id'') (\<lambda>card_id.
     bind_exc (item transaction ''merchant_id'') (\<lambda>merchant_id.
     bind_exc (item transaction ''amount'') (\<lambda>amount.
     bind_exc (item transaction ''timestamp'') (\<lambda>timestamp.
     bind_exc (compute_transaction_features transaction) (\<lambda>tx_features.
     let features1 = dict_update [] tx_features in
     bind_exc (as_int timestamp) (\<lambda>ts.
     bind_exc (compute_velocity_features L cfg r (py_str L card_id) ts) (\<lambda>velocity_features.
     let features2 = dict_update features1 velocity_features in
     bind_exc (as_real amount) (\<lambda>a.
     let rolling_features = compute_rolling_features cfg r (py_str L card_id) a;
         features3 = dict_update features2 rolling_features;
         temporal_features = compute_temporal_features L ts;
         features4 = dict_update features3 temporal_features;
         merchant_features = get_merchant_features r (py_str L merchant_id);
         features5 = dict_update features4
                       (map (\<lambda>(k, v). (''merchant_'' @ k, v)) merchant_features)
     in bind_exc (item transaction ''transaction_id'') (\<lambda>transaction_id.
        Inr features5)))))))))"

text \<open>
  \<^verbatim>\<open>update_card_state\<close> reads the three fields (KeyError when one is missing) and then makes
  four independent store calls, each of which swallows its own exceptions.  A field of
  another type than the callee's signature declares raises inside the callee's \<^verbatim>\<open>try\<close>
  block, which leaves the store as it was.  An amount that is \<^verbatim>\<open>nan\<close> or infinite is where
  the model of the store stops.
\<close>

definition update_card_state ::
    "pylib \<Rightarrow> feature_config \<Rightarrow> redis \<Rightarrow> string \<Rightarrow> pydict \<Rightarrow> exn + redis" where
  "update_card_state L cfg r card_id transaction =
     bind_exc (item transaction ''timestamp'') (\<lambda>timestamp.
     bind_exc (item transaction ''amount'') (\<lambda>amount.
     bind_exc (item transaction ''merchant_id'') (\<lambda>merchant_id.
     let r1 = snd (add_to_transaction_history L r card_id transaction 86400);
         r2 = snd (add_merchant_to_set r1 card_id (py_str L merchant_id) 86400)
     in
     bind_exc (case as_real amount of
                 Inl NonFiniteArithmetic \<Rightarrow> Inl NonFiniteArithmetic
               | Inl e \<Rightarrow> Inr r2
               | Inr a \<Rightarrow> Inr (snd (update_rolling_average r2 card_id a
                                       (rolling_avg_alpha cfg)))) (\<lambda>r3.
     let r4 = (case as_int timestamp of
                 Inl e \<Rightarrow> r3
               | Inr ts \<Rightarrow> snd (update_last_transaction_timestamp r3 card_id ts))
     in Inr r4))))"

section \<open>TransactionPreprocessor (preprocessor.py)\<close>

record preprocessor =
  clip_percentile :: real
  amount_clip_value :: real

text \<open>
  The constructor sets the clip value to 10000.  No method changes it, but it is a plain
  attribute: the repository's tests assign 5000 to it.
\<close>

definition TransactionPreprocessor :: "real \<Rightarrow> preprocessor" where
  "TransactionPreprocessor percentile = \<lparr>clip_percentile = percentile, amount_clip_value = 10000\<rparr>"

definition REQUIRED_FIELDS :: "string list" where
  "REQUIRED_FIELDS = [''transaction_id'', ''card_id'', ''amount'', ''merchant_id'', ''timestamp'']"

definition OPTIONAL_FIELDS :: "(string \<times> pyval) list" where
  "OPTIONAL_FIELDS =
     [(''merchant_category'', PStr ''UNKNOWN''),
      (''location_lat'', PNone),
      (''location_lon'', PNone),
      (''city'', PStr []),
      (''state'', PStr []),
      (''user_id'', PStr [])]"

text \<open>\<^verbatim>\<open>field not in transaction or transaction[field] is None\<close>\<close>

definition absent :: "pydict \<Rightarrow> string \<Rightarrow> bool" where
  "absent d field = (case map_of d field of None \<Rightarrow> True | Some v \<Rightarrow> v = PNone)"

text \<open>\<^verbatim>\<open>validate_schema\<close> returns a flag and a message; the model keeps the flag.\<close>

definition validate_schema :: "pyval \<Rightarrow> bool" where
  "validate_schema transaction =
     (case transaction of
        PDict d \<Rightarrow> (let missing_fields = filter (absent d) REQUIRED_FIELDS in missing_fields = [])
      | _ \<Rightarrow> False)"

fun fill_defaults :: "(string \<times> pyval) list \<Rightarrow> pydict \<Rightarrow> pydict" where
  "fill_defaults [] transaction = transaction"
| "fill_defaults ((field, default_value) # rest) transaction =
     fill_defaults rest
       (if absent transaction field then AList.update field default_value transaction
        else transaction)"

definition handle_missing_values :: "pydict \<Rightarrow> pydict" where
  "handle_missing_values transaction = fill_defaults OPTIONAL_FIELDS transaction"

text \<open>
  Floats in the preprocessor.  Every comparison with \<^verbatim>\<open>nan\<close> is false; \<^verbatim>\<open>abs\<close> and
  \<^verbatim>\<open>round(x, 2)\<close> return \<^verbatim>\<open>nan\<close> and the infinities as they are.
\<close>

fun pf_less :: "pyfloat \<Rightarrow> pyfloat \<Rightarrow> bool" where
  "pf_less (Finite x) (Finite y) = (x < y)"
| "pf_less (NonFinite NaN) y = False"
| "pf_less x (NonFinite NaN) = False"
| "pf_less (NonFinite NegInf) (NonFinite NegInf) = False"
| "pf_less (NonFinite NegInf) y = True"
| "pf_less (NonFinite PosInf) y = False"
| "pf_less (Finite x) (NonFinite PosInf) = True"
| "pf_less (Finite x) (NonFinite NegInf) = False"

fun pf_le :: "pyfloat \<Rightarrow> pyfloat \<Rightarrow> bool" where
  "pf_le (Finite x) (Finite y) = (x \<le> y)"
| "pf_le (NonFinite NaN) y = False"
| "pf_le x (NonFinite NaN) = False"
| "pf_le (NonFinite NegInf) y = True"
| "pf_le x (NonFinite PosInf) = True"
| "pf_le (NonFinite PosInf) y = False"
| "pf_le (Finite x) (NonFinite NegInf) = False"

definition pf_abs :: "pyfloat \<Rightarrow> pyfloat" where
  "pf_abs f = (case f of
                 Finite x \<Rightarrow> Finite \<bar>x\<bar>
               | NonFinite NaN \<Rightarrow> NonFinite NaN
               | NonFinite n \<Rightarrow> NonFinite PosInf)"

definition pf_round :: "pyfloat \<Rightarrow> nat \<Rightarrow> pyfloat" where
  "pf_round f n = (case f of Finite x \<Rightarrow> Finite (py_round x n) | NonFinite m \<Rightarrow> NonFinite m)"

definition float_value :: "pyfloat \<Rightarrow> pyval" where
  "float_value f = (case f of Finite x \<Rightarrow> PFloat x | NonFinite n \<Rightarrow> PNonFinite n)"

text \<open>
  \<^verbatim>\<open>==\<close> on two values that are not the same object, for the values that are not
  containers: numbers compare by value and \<^verbatim>\<open>nan\<close> equals nothing, itself included.
\<close>

definition number_of :: "pyval \<Rightarrow> pyfloat option" where
  "number_of v =
     (case v of
        PInt n \<Rightarrow> Some (Finite (of_int n))
      | PBool b \<Rightarrow> Some (Finite (if b then 1 else 0))
      | PFloat x \<Rightarrow> Some (Finite x)
      | PNonFinite n \<Rightarrow> Some (NonFinite n)
      | _ \<Rightarrow> None)"

definition py_eq :: "pyval \<Rightarrow> pyval \<Rightarrow> bool" where
  "py_eq v w =
     (case (number_of v, number_of w) of
        (Some a, Some b) \<Rightarrow> a \<noteq> NonFinite NaN \<and> a = b
      | (None, None) \<Rightarrow> v = w
      | _ \<Rightarrow> False)"

text \<open>
  A number as a float, for the comparisons of \<^verbatim>\<open>_validate_ranges\<close>; \<^verbatim>\<open>float(v)\<close>, which
  overflows on an integer beyond the largest double; and \<^verbatim>\<open>int(x)\<close> on a float, which
  truncates towards zero and raises on \<^verbatim>\<open>nan\<close> (ValueError) and on an infinity
  (OverflowError).
\<close>

definition as_float :: "pyval \<Rightarrow> exn + pyfloat" where
  "as_float v = (case number_of v of None \<Rightarrow> Inl TypeError | Some f \<Rightarrow> Inr f)"

definition py_float :: "pylib \<Rightarrow> pyval \<Rightarrow> exn + pyfloat" where
  "py_float L v =
     (case v of
        PInt n \<Rightarrow> (if \<bar>n\<bar> \<ge> 2 ^ 1024 - 2 ^ 970 then Inl OverflowError
                   else Inr (Finite (of_int n)))
      | PBool b \<Rightarrow> Inr (Finite (if b then 1 else 0))
      | PFloat x \<Rightarrow> Inr (Finite x)
      | PNonFinite n \<Rightarrow> Inr (NonFinite n)
      | PStr s \<Rightarrow> (case float_of_str L s of
                    None \<Rightarrow> Inl (ValueError InvalidLiteral)
                  | Some f \<Rightarrow> Inr f)
      | _ \<Rightarrow> Inl TypeError)"

definition truncate :: "real \<Rightarrow> int" where
  "truncate x = (if 0 \<le> x then \<lfloor>x\<rfloor> else \<lceil>x\<rceil>)"

definition int_of_float :: "pyfloat \<Rightarrow> exn + int" where
  "int_of_float f =
     (case f of
        Finite x \<Rightarrow> Inr (truncate x)
      | NonFinite NaN \<Rightarrow> Inl (ValueError InvalidLiteral)
      | NonFinite n \<Rightarrow> Inl OverflowError)"

definition cast_optional_float :: "pylib \<Rightarrow> string \<Rightarrow> pydict \<Rightarrow> exn + pydict" where
  "cast_optional_float L field transaction =
     (if dict_get transaction field PNone \<noteq> PNone
      then bind_exc (item transaction field) (\<lambda>v.
           bind_exc (py_float L v) (\<lambda>x.
           Inr (AList.update field (float_value x) transaction)))
      else Inr transaction)"

text \<open>\<^verbatim>\<open>if isinstance(timestamp, (int, float)): timestamp = int(timestamp)\<close>\<close>

definition cast_timestamp :: "pydict \<Rightarrow> pyval \<Rightarrow> exn + pydict" where
  "cast_timestamp transaction ts =
     (case ts of
        PInt n \<Rightarrow> Inr (AList.update ''timestamp'' (PInt n) transaction)
      | PBool b \<Rightarrow> Inr (AList.update ''timestamp'' (PInt (if b then 1 else 0)) transaction)
      | PFloat x \<Rightarrow> Inr (AList.update ''timestamp'' (PInt (truncate x)) transaction)
      | PNonFinite n \<Rightarrow> bind_exc (int_of_float (NonFinite n)) (\<lambda>i.
                          Inr (AList.update ''timestamp'' (PInt i) transaction))
      | _ \<Rightarrow> Inr transaction)"

definition cast_fields :: "pylib \<Rightarrow> pydict \<Rightarrow> exn + pydict" where
  "cast_fields L transaction =
     bind_exc (item transaction ''transaction_id'') (\<lambda>v.
     let t1 = AList.update ''transaction_id'' (PStr (py_str L v)) transaction in
     bind_exc (item t1 ''card_id'') (\<lambda>v.
     let t2 = AList.update ''card_id'' (PStr (py_str L v)) t1 in
     bind_exc (item t2 ''merchant_id'') (\<lambda>v.
     let t3 = AList.update ''merchant_id'' (PStr (py_str L v)) t2;
         t4 = AList.update ''merchant_category''
                (PStr (py_str L (dict_get t3 ''merchant_category'' (PStr ''UNKNOWN'')))) t3
     in
     bind_exc (item t4 ''amount'') (\<lambda>v.
     bind_exc (py_float L v) (\<lambda>a.
     let t5 = AList.update ''amount'' (float_value a) t4 in
     bind_exc (item t5 ''timestamp'') (\<lambda>ts.
     bind_exc (cast_timestamp t5 ts) (\<lambda>t6.
     bind_exc (cast_optional_float L ''location_lat'' t6) (\<lambda>t7.
     cast_optional_float L ''location_lon'' t7))))))))"

text \<open>
  \<^verbatim>\<open>_cast_types\<close>: the body above inside \<^verbatim>\<open>try\<close>, with
  \<^verbatim>\<open>except (ValueError, TypeError)\<close> re-raising as a ValueError.  An OverflowError is
  neither and passes through.
\<close>

definition cast_types :: "pylib \<Rightarrow> pydict \<Rightarrow> exn + pydict" where
  "cast_types L transaction =
     (case cast_fields L transaction of
        Inl (ValueError e) \<Rightarrow> Inl (ValueError TypeCastingError)
      | Inl TypeError \<Rightarrow> Inl (ValueError TypeCastingError)
      | Inl e \<Rightarrow> Inl e
      | Inr t \<Rightarrow> Inr t)"

definition normalize_amount :: "preprocessor \<Rightarrow> pyfloat \<Rightarrow> pyfloat" where
  "normalize_amount P amount =
     (let amount1 = (if pf_less amount (Finite 0) then pf_abs amount else amount);
          amount2 = (if pf_less (Finite (amount_clip_value P)) amount1
                     then Finite (amount_clip_value P) else amount1)
      in pf_round amount2 2)"

definition parse_timestamp :: "pylib \<Rightarrow> pyval \<Rightarrow> exn + int" where
  "parse_timestamp L timestamp =
     (case timestamp of
        PInt n \<Rightarrow> Inr n
      | PBool b \<Rightarrow> Inr (if b then 1 else 0)
      | PFloat x \<Rightarrow> Inr (truncate x)
      | PNonFinite n \<Rightarrow> int_of_float (NonFinite n)
      | PStr s \<Rightarrow> (case epoch_of_str L s of
                    None \<Rightarrow> Inl (ValueError UnableToParseTimestamp)
                  | Some n \<Rightarrow> Inr n)
      | _ \<Rightarrow> Inl (ValueError InvalidTimestampType))"

definition validate_coordinate :: "string \<Rightarrow> real \<Rightarrow> verr \<Rightarrow> pydict \<Rightarrow> exn + unit" where
  "validate_coordinate field bound err transaction =
     (if dict_get transaction field PNone \<noteq> PNone
      then bind_exc (item transaction field) (\<lambda>v.
           bind_exc (as_float v) (\<lambda>x.
           if \<not> (pf_le (Finite (- bound)) x \<and> pf_le x (Finite bound))
           then Inl (ValueError err) else Inr ()))
      else Inr ())"

definition validate_ranges :: "pydict \<Rightarrow> exn + unit" where
  "validate_ranges transaction =
     bind_exc (item transaction ''amount'') (\<lambda>v.
     bind_exc (as_float v) (\<lambda>amount.
     if pf_le amount (Finite 0) then Inl (ValueError AmountMustBePositive)
     else
       bind_exc (item transaction ''timestamp'') (\<lambda>v.
       bind_exc (as_int v) (\<lambda>timestamp.
       if \<not> (946684800 \<le> timestamp \<and> timestamp \<le> 4102444800)
       then Inl (ValueError TimestampOutOfRange)
       else
         bind_exc (validate_coordinate ''location_lat'' 90 InvalidLatitude transaction) (\<lambda>u.
         validate_coordinate ''location_lon'' 180 InvalidLongitude transaction)))))"

definition preprocess :: "pylib \<Rightarrow> preprocessor \<Rightarrow> pyval \<Rightarrow> exn + pydict" where
  "preprocess L P transaction =
     (if \<not> validate_schema transaction then Inl (ValueError InvalidTransaction)
      else
        case transaction of
          PDict d \<Rightarrow>
            (let processed1 = handle_missing_values d in
             bind_exc (cast_types L processed1) (\<lambda>processed2.
             bind_exc (item processed2 ''amount'') (\<lambda>v.
             bind_exc (as_float v) (\<lambda>amount.
             let processed3 = AList.update ''amount'' (float_value (normalize_amount P amount))
                                processed2 in
             bind_exc (item processed3 ''timestamp'') (\<lambda>v.
             bind_exc (parse_timestamp L v) (\<lambda>timestamp.
             let processed4 = AList.update ''timestamp'' (PInt timestamp) processed3 in
             bind_exc (validate_ranges processed4) (\<lambda>u.
             Inr processed4)))))))
        | _ \<Rightarrow> Inl (ValueError InvalidTransaction))"

section \<open>FeatureExtractionConsumer (consumer.py)\<close>

text \<open>
  The consumer owns the counters and the store.  Its preprocessor and extractor are built
  from \<open>FEATURE_CONFIG\<close> in \<^verbatim>\<open>_init_services\<close>.  Latency bookkeeping and logging are left
  out, except where formatting the log line can raise: \<^verbatim>\<open>card_id[:12]\<close> slices the
  message's own \<^verbatim>\<open>card_id\<close>, which need not be a string.  For a message whose amount is
  \<^verbatim>\<open>nan\<close> the model of the extractor stops, and \<open>process_message\<close> reports a failure where
  the code goes on with \<^verbatim>\<open>nan\<close> features.
\<close>

record consumer =
  running :: bool
  messages_processed :: nat
  messages_failed :: nat
  feature_store :: redis

definition sliceable :: "pyval \<Rightarrow> bool" where
  "sliceable v = (case v of PStr s \<Rightarrow> True | PList l \<Rightarrow> True | _ \<Rightarrow> False)"

definition process_message :: "pylib \<Rightarrow> redis \<Rightarrow> pyval \<Rightarrow> bool \<times> redis" where
  "process_message L r message =
     (case message of
        PDict m \<Rightarrow>
          (let transaction_id = dict_get m ''transaction_id'' (PStr ''UNKNOWN'');
               card_id = dict_get m ''card_id'' (PStr [])
           in case preprocess L
                     (TransactionPreprocessor (amount_clip_percentile FEATURE_CONFIG)) message of
                Inl e \<Rightarrow> (False, r)
              | Inr preprocessed_tx \<Rightarrow>
                  (case extract_features L FEATURE_CONFIG r preprocessed_tx of
                     Inl e \<Rightarrow> (False, r)
                   | Inr features \<Rightarrow>
                       (case update_card_state L FEATURE_CONFIG r (py_str L card_id)
                               preprocessed_tx of
                          Inl e \<Rightarrow> (False, r)
                        | Inr r' \<Rightarrow> if sliceable card_id then (True, r') else (False, r'))))
      | _ \<Rightarrow> (False, r))"

definition consume_one :: "pylib \<Rightarrow> consumer \<Rightarrow> pyval \<Rightarrow> consumer" where
  "consume_one L c transaction =
     (let (success, r') = process_message L (feature_store c) transaction;
          c1 = c\<lparr>feature_store := r'\<rparr>
      in if success then c1\<lparr>messages_processed := messages_processed c1 + 1\<rparr>
         else c1\<lparr>messages_failed := messages_failed c1 + 1\<rparr>)"

fun consume :: "pylib \<Rightarrow> consumer \<Rightarrow> pyval list \<Rightarrow> consumer" where
  "consume L c [] = c"
| "consume L c (message # rest) =
     (if \<not> running c then c else consume L (consume_one L c message) rest)"

section \<open>Auxiliary notions for the statements\<close>

text \<open>The empty, reachable store.\<close>

definition empty_store :: redis where
  "empty_store = \<lparr>connected = True, hashes = (\<lambda>key. []), zsets = (\<lambda>key. []),
                   sets = (\<lambda>key. {}), ttls = (\<lambda>key. None)\<rparr>"

text \<open>
  What \<^verbatim>\<open>update_rolling_average\<close> takes as the previous average of a card: the number in the
  \<open>avg_amount\<close> field, and 75 when the field is missing or empty.  A non-empty text that is
  not a number makes the method fail; \<open>unreadable_average\<close> names that case.
\<close>

definition previous_average :: "redis \<Rightarrow> string \<Rightarrow> real" where
  "previous_average r card_id =
     (case map_of (hashes r (stats_key card_id)) ''avg_amount'' of
        None \<Rightarrow> 75
      | Some (RInt n) \<Rightarrow> of_int n
      | Some (RFloat x) \<Rightarrow> x
      | Some (RText s) \<Rightarrow> 75)"

definition unreadable_average :: "redis \<Rightarrow> string \<Rightarrow> bool" where
  "unreadable_average r card_id =
     (case map_of (hashes r (stats_key card_id)) ''avg_amount'' of
        Some (RText s) \<Rightarrow> s \<noteq> []
      | _ \<Rightarrow> False)"

text \<open>
  A stand-in for the Python library, for evaluating the model on concrete inputs: the
  local time zone is UTC, no string parses as a number, a date or a JSON document,
  every value is written as the same text, and every reply is valid UTF-8.
\<close>

definition utc_lib :: pylib where
  "utc_lib = \<lparr>py_repr = (\<lambda>v. ''?''), float_of_str = (\<lambda>s. None), epoch_of_str = (\<lambda>s. None),
               utc_offset = (\<lambda>t. 0), json_dumps = (\<lambda>v. ''{}''),
               json_loads = (\<lambda>s. Inl JSONDecodeError), utf8_decodable = (\<lambda>s. True)\<rparr>"

text \<open>
  A card's history is consistent when every entry that decodes is a dictionary whose
  \<open>timestamp\<close> field is the entry's score.  \<^verbatim>\<open>add_to_transaction_history\<close> writes such
  entries only.
\<close>

definition history_consistent :: "pylib \<Rightarrow> redis \<Rightarrow> string \<Rightarrow> bool" where
  "history_consistent L r card_id =
     (\<forall>e \<in> set (zsets r (tx_history_key card_id)).
        case json_loads L (fst e) of
          Inl e' \<Rightarrow> True
        | Inr tx \<Rightarrow> (case tx of PDict d \<Rightarrow> map_of d ''timestamp'' = Some (PInt (snd e))
                              | _ \<Rightarrow> False))"

text \<open>
  A second stand-in library, in which the text \<open>{}\<close> decodes to a dictionary with a time
  stamp and every other text is not JSON; and a third, in which moreover a run of 1000
  opening brackets exhausts the recursion limit of \<^verbatim>\<open>json.loads\<close>, as it does in CPython.
\<close>

definition decoding_lib :: pylib where
  "decoding_lib =
     utc_lib\<lparr>json_loads :=
       (\<lambda>s. if s = ''{}'' then Inr (PDict [(''timestamp'', PInt 1707580000)])
            else Inl JSONDecodeError)\<rparr>"

definition nesting_lib :: pylib where
  "nesting_lib =
     utc_lib\<lparr>json_loads :=
       (\<lambda>s. if s = ''{}'' then Inr (PDict [(''timestamp'', PInt 1707580000)])
            else if s = replicate 1000 (CHR ''['') then Inl RecursionError
            else Inl JSONDecodeError)\<rparr>"

text \<open>
  What an entry of the history decodes to, if anything; and the entries that
  \<^verbatim>\<open>get_transaction_history\<close> can take or skip one at a time: valid UTF-8 on which
  \<^verbatim>\<open>json.loads\<close> returns a value or raises \<^verbatim>\<open>JSONDecodeError\<close>.
\<close>

definition decoded :: "pylib \<Rightarrow> string \<Rightarrow> pyval option" where
  "decoded L member = (case json_loads L member of Inl e \<Rightarrow> None | Inr tx \<Rightarrow> Some tx)"

definition decodes_or_skips :: "pylib \<Rightarrow> string \<Rightarrow> bool" where
  "decodes_or_skips L member \<longleftrightarrow>
     utf8_decodable L member \<and>
     (case json_loads L member of Inl e \<Rightarrow> e = JSONDecodeError | Inr tx \<Rightarrow> True)"

text \<open>
  The entries that the loop of \<^verbatim>\<open>get_transaction_history\<close> skips: valid UTF-8 on which
  \<^verbatim>\<open>json.loads\<close> raises \<^verbatim>\<open>JSONDecodeError\<close>.  \<open>without_skipped\<close> is the store with these
  entries deleted from a card's history.
\<close>

definition skipped :: "pylib \<Rightarrow> string \<Rightarrow> bool" where
  "skipped L member \<longleftrightarrow>
     utf8_decodable L member \<and> json_loads L member = Inl JSONDecodeError"

definition without_skipped :: "pylib \<Rightarrow> redis \<Rightarrow> string \<Rightarrow> redis" where
  "without_skipped L r card_id =
     r\<lparr>zsets := (zsets r)(tx_history_key card_id :=
          filter (\<lambda>e. \<not> skipped L (fst e)) (zsets r (tx_history_key card_id)))\<rparr>"

text \<open>
  The members of a card's history with a score from \<open>t - w\<close> to \<open>t\<close>, in the order of the
  store.
\<close>

definition members_in_range :: "redis \<Rightarrow> string \<Rightarrow> int \<Rightarrow> int \<Rightarrow> string list" where
  "members_in_range r card_id w t =
     map fst (filter (\<lambda>e. t - w \<le> snd e \<and> snd e \<le> t) (zsets r (tx_history_key card_id)))"

text \<open>
  The event of the cold start scenario, as it arrives, as the preprocessor returns it, and
  the feature vector extracted for it on the empty store when the local zone is UTC.
\<close>

definition cold_start_event :: pydict where
  "cold_start_event =
     [(''transaction_id'', PStr ''A''), (''card_id'', PStr ''C1''), (''amount'', PFloat 100),
      (''merchant_id'', PStr ''M1''), (''timestamp'', PInt 1707580000)]"

definition cold_start_preprocessed :: pydict where
  "cold_start_preprocessed =
     cold_start_event @
     [(''merchant_category'', PStr ''UNKNOWN''), (''location_lat'', PNone),
      (''location_lon'', PNone), (''city'', PStr []), (''state'', PStr []),
      (''user_id'', PStr [])]"

definition cold_start_features :: pydict where
  "cold_start_features =
     [(''amount'', PFloat 100), (''amount_log'', PFloat (safe_log 100)),
      (''merchant_category'', PStr ''UNKNOWN''), (''has_location'', PInt 0),
      (''tx_count_10m'', PInt 0), (''total_amount_10m'', PInt 0),
      (''tx_count_1h'', PInt 0), (''total_amount_1h'', PInt 0),
      (''tx_count_24h'', PInt 0), (''total_amount_24h'', PInt 0),
      (''unique_merchants_24h'', PInt 0), (''time_since_last_tx'', PInt 0),
      (''avg_tx_amount_30d'', PFloat 75),
      (''amount_deviation'', PFloat (333/1000)),
      (''amount_vs_avg_ratio'', PFloat (1333/1000)),
      (''hour_of_day'', PInt 15), (''day_of_week'', PInt 5),
      (''is_weekend'', PInt 1), (''is_night'', PInt 0),
      (''merchant_risk_score'', PFloat (1/2)), (''merchant_fraud_rate'', PFloat (2/1000)),
      (''merchant_total_transactions'', PInt 100)]"

text \<open>
  The shape of a record that the preprocessor has produced: identifiers are strings, the
  amount is a float that normalisation leaves alone, the time stamp is an integer, each
  coordinate is \<^verbatim>\<open>None\<close> or a float, the remaining optional fields are filled, and the
  ranges hold.
\<close>

definition normalized_record :: "preprocessor \<Rightarrow> pydict \<Rightarrow> bool" where
  "normalized_record P out \<longleftrightarrow>
     (\<exists>s. map_of out ''transaction_id'' = Some (PStr s)) \<and>
     (\<exists>s. map_of out ''card_id'' = Some (PStr s)) \<and>
     (\<exists>s. map_of out ''merchant_id'' = Some (PStr s)) \<and>
     (\<exists>s. map_of out ''merchant_category'' = Some (PStr s)) \<and>
     (\<exists>a. map_of out ''amount'' = Some (float_value a) \<and> normalize_amount P a = a) \<and>
     (\<exists>n. map_of out ''timestamp'' = Some (PInt n)) \<and>
     (map_of out ''location_lat'' = Some PNone \<or>
        (\<exists>x. map_of out ''location_lat'' = Some (float_value x))) \<and>
     (map_of out ''location_lon'' = Some PNone \<or>
        (\<exists>x. map_of out ''location_lon'' = Some (float_value x))) \<and>
     (\<exists>v. map_of out ''city'' = Some v \<and> v \<noteq> PNone) \<and>
     (\<exists>v. map_of out ''state'' = Some v \<and> v \<noteq> PNone) \<and>
     (\<exists>v. map_of out ''user_id'' = Some v \<and> v \<noteq> PNone) \<and>
     validate_ranges out = Inr ()"

text \<open>
  The amount rule in the specification's words, for comparison with the code: absolute
  value, clipped at the clip value, rounded to two decimals with a tie going away from
  zero.
\<close>

definition spec_round_half_away :: "real \<Rightarrow> nat \<Rightarrow> real" where
  "spec_round_half_away x n =
     (if 0 \<le> x then of_int \<lfloor>x * 10 ^ n + 1/2\<rfloor> else of_int \<lceil>x * 10 ^ n - 1/2\<rceil>) / 10 ^ n"

definition spec_normalize_amount :: "real \<Rightarrow> real \<Rightarrow> real" where
  "spec_normalize_amount clip amount = spec_round_half_away (min \<bar>amount\<bar> clip) 2"

section \<open>Basic facts about the model\<close>

lemma bind_exc_simps [simp]:
  "bind_exc (Inl e) f = Inl e"
  "bind_exc (Inr x) f = f x"
  by (simp_all add: bind_exc_def)

lemma redis_commands_connected [simp]:
  "connected r \<Longrightarrow> hget r key field = Inr (map_of (hashes r key) field)"
  "connected r \<Longrightarrow> hgetall r key = Inr (hashes r key)"
  "connected r \<Longrightarrow> hset r key field v =
     Inr (r\<lparr>hashes := (hashes r)(key := AList.update field v (hashes r key))\<rparr>)"
  "connected r \<Longrightarrow> expire r key ttl = Inr (r\<lparr>ttls := (ttls r)(key \<mapsto> ttl)\<rparr>)"
  "connected r \<Longrightarrow> zadd r key member score =
     Inr (r\<lparr>zsets := (zsets r)
            (key := zinsert (member, score) (filter (\<lambda>e. fst e \<noteq> member) (zsets r key)))\<rparr>)"
  "connected r \<Longrightarrow> zrangebyscore r key lo hi =
     Inr (map fst (filter (\<lambda>e. lo \<le> snd e \<and> snd e \<le> hi) (zsets r key)))"
  "connected r \<Longrightarrow> zremrangebyscore_neg_inf r key hi =
     Inr (r\<lparr>zsets := (zsets r)(key := filter (\<lambda>e. \<not> snd e \<le> hi) (zsets r key))\<rparr>)"
  "connected r \<Longrightarrow> sadd r key member =
     Inr (r\<lparr>sets := (sets r)(key := insert member (sets r key))\<rparr>)"
  "connected r \<Longrightarrow> scard r key = Inr (card (sets r key))"
  by (simp_all add: hget_def hgetall_def hset_def expire_def zadd_def zrangebyscore_def
      zremrangebyscore_neg_inf_def sadd_def scard_def)

lemma redis_commands_disconnected [simp]:
  "\<not> connected r \<Longrightarrow> hget r key field = Inl RedisError"
  "\<not> connected r \<Longrightarrow> hgetall r key = Inl RedisError"
  "\<not> connected r \<Longrightarrow> hset r key field v = Inl RedisError"
  "\<not> connected r \<Longrightarrow> expire r key ttl = Inl RedisError"
  "\<not> connected r \<Longrightarrow> zadd r key member score = Inl RedisError"
  "\<not> connected r \<Longrightarrow> zrangebyscore r key lo hi = Inl RedisError"
  "\<not> connected r \<Longrightarrow> zremrangebyscore_neg_inf r key hi = Inl RedisError"
  "\<not> connected r \<Longrightarrow> sadd r key member = Inl RedisError"
  "\<not> connected r \<Longrightarrow> scard r key = Inl RedisError"
  by (simp_all add: hget_def hgetall_def hset_def expire_def zadd_def zrangebyscore_def
      zremrangebyscore_neg_inf_def sadd_def scard_def)

lemma update_rolling_average_connected:
  assumes "connected r"
    and "\<not> unreadable_average r card_id"
  shows "update_rolling_average r card_id amount alpha =
     (alpha * amount + (1 - alpha) * previous_average r card_id,
      r\<lparr>hashes := (hashes r)(stats_key card_id :=
             AList.update ''avg_amount''
               (RFloat (alpha * amount + (1 - alpha) * previous_average r card_id))
               (hashes r (stats_key card_id))),
        ttls := (ttls r)(stats_key card_id \<mapsto> 2592000)\<rparr>)"
  using assms
  by (auto simp: update_rolling_average_def previous_average_def Let_def
      unreadable_average_def truthy_def float_of_reply_def split: option.splits rstr.splits)

lemma get_rolling_average_stored:
  assumes "connected r" and "map_of (hashes r (stats_key card_id)) ''avg_amount'' = Some (RFloat x)"
  shows "get_rolling_average r card_id = Some x"
  using assms by (simp add: get_rolling_average_def Let_def truthy_def float_of_reply_def)

lemma item_simps [simp]:
  "map_of d k = Some v \<Longrightarrow> item d k = Inr v"
  "map_of d k = None \<Longrightarrow> item d k = Inl KeyError"
  by (simp_all add: item_def)

lemma last_of_keys:
  "last (stats_key c) = CHR ''s''"
  "last (tx_history_key c) = CHR ''y''"
  "last (merchants_key c) = CHR ''h''"
  by (simp_all add: stats_key_def tx_history_key_def merchants_key_def)

lemma key_distinct [simp]:
  "stats_key c \<noteq> tx_history_key c'" "stats_key c \<noteq> merchants_key c'"
  "tx_history_key c \<noteq> merchants_key c'"
  "tx_history_key c' \<noteq> stats_key c" "merchants_key c' \<noteq> stats_key c"
  "merchants_key c' \<noteq> tx_history_key c"
  using last_of_keys(1)[of c] last_of_keys(2)[of c'] last_of_keys(3)[of c']
        last_of_keys(2)[of c]
  by auto

lemma add_to_transaction_history_frame:
  "connected (snd (add_to_transaction_history L r c tx ttl)) = connected r"
  "hashes (snd (add_to_transaction_history L r c tx ttl)) = hashes r"
  "sets (snd (add_to_transaction_history L r c tx ttl)) = sets r"
  by (auto simp: add_to_transaction_history_def Let_def bind_exc_def hset_def expire_def zadd_def
      zremrangebyscore_neg_inf_def split: sum.splits if_splits)

lemma add_merchant_to_set_frame:
  "connected (snd (add_merchant_to_set r c m ttl)) = connected r"
  "hashes (snd (add_merchant_to_set r c m ttl)) = hashes r"
  "zsets (snd (add_merchant_to_set r c m ttl)) = zsets r"
  by (auto simp: add_merchant_to_set_def Let_def bind_exc_def sadd_def expire_def
      split: sum.splits if_splits)

lemma update_last_transaction_timestamp_connected:
  "connected r \<Longrightarrow> update_last_transaction_timestamp r card_id ts =
     (True, r\<lparr>hashes := (hashes r)(stats_key card_id :=
                 AList.update ''last_tx_timestamp'' (RInt ts) (hashes r (stats_key card_id))),
              ttls := (ttls r)(stats_key card_id \<mapsto> 2592000)\<rparr>)"
  by (simp add: update_last_transaction_timestamp_def Let_def)

lemma previous_average_cong:
  "hashes r' = hashes r \<Longrightarrow> previous_average r' card_id = previous_average r card_id"
  by (simp add: previous_average_def)

lemma update_card_state_stats:
  assumes conn: "connected r"
    and num: "\<not> unreadable_average r card_id"
    and fields: "map_of tx ''amount'' = Some av" "map_of tx ''timestamp'' = Some tv"
                "map_of tx ''merchant_id'' = Some mv"
    and types: "as_real av = Inr a" "as_int tv = Inr t"
  shows "\<exists>r'. update_card_state L cfg r card_id tx = Inr r' \<and> connected r' \<and>
           hashes r' = (hashes r)(stats_key card_id :=
              AList.update ''last_tx_timestamp'' (RInt t)
                (AList.update ''avg_amount''
                   (RFloat (rolling_avg_alpha cfg * a
                            + (1 - rolling_avg_alpha cfg) * previous_average r card_id))
                   (hashes r (stats_key card_id))))"
proof -
  define r1 where "r1 = snd (add_to_transaction_history L r card_id tx 86400)"
  define r2 where "r2 = snd (add_merchant_to_set r1 card_id (py_str L mv) 86400)"
  have c2: "connected r2" and h2: "hashes r2 = hashes r"
    using conn by (simp_all add: r1_def r2_def add_to_transaction_history_frame
        add_merchant_to_set_frame)
  have num2: "\<not> unreadable_average r2 card_id"
    using num by (simp add: h2 unreadable_average_def)
  define new_avg where "new_avg = rolling_avg_alpha cfg * a
                            + (1 - rolling_avg_alpha cfg) * previous_average r card_id"
  define r3 where "r3 = snd (update_rolling_average r2 card_id a (rolling_avg_alpha cfg))"
  have r3: "connected r3 \<and> hashes r3 = (hashes r)(stats_key card_id :=
               AList.update ''avg_amount'' (RFloat new_avg) (hashes r (stats_key card_id)))"
    unfolding r3_def new_avg_def update_rolling_average_connected[OF c2 num2]
    using c2 by (simp add: h2 previous_average_cong[OF h2])
  define r4 where "r4 = snd (update_last_transaction_timestamp r3 card_id t)"
  have r4: "connected r4 \<and> hashes r4 = (hashes r)(stats_key card_id :=
              AList.update ''last_tx_timestamp'' (RInt t)
                (AList.update ''avg_amount'' (RFloat new_avg) (hashes r (stats_key card_id))))"
    using r3 by (simp add: r4_def update_last_transaction_timestamp_connected)
  have "update_card_state L cfg r card_id tx = Inr r4"
    using fields types
    by (simp add: update_card_state_def Let_def r1_def r2_def r3_def r4_def)
  with r4 show ?thesis unfolding new_avg_def by blast
qed

lemma parse_entries_Inr:
  "parse_entries L ms acc = Inr txs \<Longrightarrow> txs = acc @ List.map_filter (decoded L) ms"
proof (induction ms arbitrary: acc)
  case Nil
  then show ?case by (simp add: List.map_filter_simps)
next
  case (Cons m ms)
  show ?case
  proof (cases "json_loads L m")
    case (Inr tx)
    with Cons.prems have "parse_entries L ms (acc @ [tx]) = Inr txs" by simp
    from Cons.IH[OF this] Inr show ?thesis
      by (simp add: List.map_filter_simps decoded_def)
  next
    case (Inl e)
    with Cons.prems have e: "e = JSONDecodeError" by (cases e) simp_all
    with Cons.prems Inl have "parse_entries L ms acc = Inr txs" by simp
    from Cons.IH[OF this] Inl show ?thesis
      by (simp add: List.map_filter_simps decoded_def)
  qed
qed

lemma parse_entries_skipping:
  "list_all (decodes_or_skips L) ms \<Longrightarrow>
   parse_entries L ms acc = Inr (acc @ List.map_filter (decoded L) ms)"
proof (induction ms arbitrary: acc)
  case Nil
  then show ?case by (simp add: List.map_filter_simps)
next
  case (Cons m ms)
  then show ?case
    by (cases "json_loads L m")
       (simp_all add: List.map_filter_simps decoded_def decodes_or_skips_def)
qed

lemma get_transaction_history_cases:
  "get_transaction_history L r card_id w t = [] \<or>
   (connected r \<and>
    get_transaction_history L r card_id w t =
      List.map_filter (decoded L)
        (map fst (filter (\<lambda>e. t - w \<le> snd e \<and> snd e \<le> t)
                    (zsets r (tx_history_key card_id)))))"
proof (cases "connected r")
  case False
  then show ?thesis by (simp add: get_transaction_history_def Let_def)
next
  case True
  define ms where "ms = map fst (filter (\<lambda>e. t - w \<le> snd e \<and> snd e \<le> t)
                    (zsets r (tx_history_key card_id)))"
  show ?thesis
  proof (cases "decode_replies L ms")
    case (Inl e)
    then show ?thesis using True
      by (simp add: get_transaction_history_def Let_def ms_def)
  next
    case d: (Inr ds)
    then have ds: "ds = ms" by (simp add: decode_replies_def split: if_splits)
    show ?thesis
    proof (cases "parse_entries L ms []")
      case (Inl e)
      then show ?thesis using True d ds
        by (simp add: get_transaction_history_def Let_def ms_def[symmetric])
    next
      case (Inr txs)
      from parse_entries_Inr[OF this] Inr show ?thesis using True d ds
        by (simp add: get_transaction_history_def Let_def ms_def[symmetric])
    qed
  qed
qed

lemma get_transaction_history_skipping:
  assumes "connected r"
    and "list_all (decodes_or_skips L)
           (map fst (filter (\<lambda>e. t - w \<le> snd e \<and> snd e \<le> t)
                       (zsets r (tx_history_key card_id))))"
  shows "get_transaction_history L r card_id w t =
     List.map_filter (decoded L)
       (map fst (filter (\<lambda>e. t - w \<le> snd e \<and> snd e \<le> t)
                   (zsets r (tx_history_key card_id))))"
proof -
  define ms where "ms = map fst (filter (\<lambda>e. t - w \<le> snd e \<and> snd e \<le> t)
                    (zsets r (tx_history_key card_id)))"
  have a: "list_all (decodes_or_skips L) ms" using assms(2) by (simp add: ms_def)
  then have u: "list_all (utf8_decodable L) ms"
    by (simp add: list_all_iff decodes_or_skips_def)
  show ?thesis
    using assms(1) u parse_entries_skipping[OF a, of "[]"]
    by (simp add: get_transaction_history_def Let_def decode_replies_def ms_def[symmetric])
qed

lemma parse_entries_Inr_skips:
  "parse_entries L ms acc = Inr txs \<Longrightarrow>
   list_all (\<lambda>m. case json_loads L m of Inl e \<Rightarrow> e = JSONDecodeError | Inr tx \<Rightarrow> True) ms"
proof (induction ms arbitrary: acc)
  case Nil
  then show ?case by simp
next
  case (Cons m ms)
  show ?case
  proof (cases "json_loads L m")
    case (Inr tx)
    with Cons show ?thesis by auto
  next
    case (Inl e)
    with Cons show ?thesis by (cases e) auto
  qed
qed

lemma get_transaction_history_characterised:
  "get_transaction_history L r card_id w t =
     (if connected r \<and> list_all (decodes_or_skips L) (members_in_range r card_id w t)
      then List.map_filter (decoded L) (members_in_range r card_id w t) else [])"
proof (cases "connected r \<and> list_all (decodes_or_skips L) (members_in_range r card_id w t)")
  case True
  then show ?thesis
    using get_transaction_history_skipping[of r L t w card_id]
    by (simp add: members_in_range_def)
next
  case False
  define ms where "ms = members_in_range r card_id w t"
  have "get_transaction_history L r card_id w t = []"
  proof (cases "connected r")
    case False
    then show ?thesis by (simp add: get_transaction_history_def Let_def)
  next
    case c: True
    show ?thesis
    proof (cases "list_all (utf8_decodable L) ms")
      case False
      then show ?thesis
        using c
        by (simp add: get_transaction_history_def Let_def decode_replies_def ms_def
            members_in_range_def)
    next
      case u: True
      have "\<exists>e. parse_entries L ms [] = Inl e"
      proof (cases "parse_entries L ms []")
        case (Inl e)
        then show ?thesis by blast
      next
        case (Inr txs)
        from parse_entries_Inr_skips[OF this] u have "list_all (decodes_or_skips L) ms"
          by (simp add: list_all_iff decodes_or_skips_def)
        with False c show ?thesis by (simp add: ms_def)
      qed
      then obtain e where "parse_entries L ms [] = Inl e" by blast
      then show ?thesis
        using c u
        by (simp add: get_transaction_history_def Let_def decode_replies_def ms_def
            members_in_range_def)
    qed
  qed
  then show ?thesis by (simp only: False if_False)
qed

lemma members_in_range_without_skipped:
  "members_in_range (without_skipped L r card_id) card_id w t =
     filter (\<lambda>m. \<not> skipped L m) (members_in_range r card_id w t)"
  by (simp add: members_in_range_def without_skipped_def filter_map o_def conj_commute)

lemma decodes_or_skips_without_skipped:
  "list_all (decodes_or_skips L) (filter (\<lambda>m. \<not> skipped L m) ms) \<longleftrightarrow>
   list_all (decodes_or_skips L) ms"
  by (induction ms) (auto simp: skipped_def decodes_or_skips_def)

lemma decoded_without_skipped:
  "List.map_filter (decoded L) (filter (\<lambda>m. \<not> skipped L m) ms) =
   List.map_filter (decoded L) ms"
proof (induction ms)
  case Nil
  then show ?case by simp
next
  case (Cons m ms)
  show ?case
  proof (cases "skipped L m")
    case True
    then have "decoded L m = None" by (simp add: skipped_def decoded_def)
    with True Cons show ?thesis by (simp add: List.map_filter_simps)
  next
    case False
    with Cons show ?thesis by (cases "decoded L m") (simp_all add: List.map_filter_simps)
  qed
qed

lemma nested_text_neq: "replicate 1000 (CHR ''['') \<noteq> ''{}''"
proof
  assume "replicate 1000 (CHR ''['') = ''{}''"
  then have "length (replicate 1000 (CHR ''['')) = length ''{}''" by (rule arg_cong)
  then show False by simp
qed

lemma get_transaction_history_without_skipped:
  "get_transaction_history L (without_skipped L r card_id) card_id w t =
   get_transaction_history L r card_id w t"
proof -
  have c: "connected (without_skipped L r card_id) = connected r"
    by (simp add: without_skipped_def)
  show ?thesis
    by (simp only: get_transaction_history_characterised members_in_range_without_skipped
        decodes_or_skips_without_skipped decoded_without_skipped c)
qed

lemma get_transaction_history_disconnected:
  "\<not> connected r \<Longrightarrow> get_transaction_history L r card_id w t = []"
  by (simp add: get_transaction_history_def Let_def)

lemma set_zinsert: "set (zinsert e es) = insert e (set es)"
  by (induction es) auto

lemma add_to_transaction_history_connected:
  assumes "connected r"
    and "map_of tx ''timestamp'' = Some tv" "map_of tx ''amount'' = Some av"
        "map_of tx ''merchant_id'' = Some mv"
    and "as_int tv = Inr t"
  shows "add_to_transaction_history L r card_id tx ttl =
     (True,
      r\<lparr>zsets := (zsets r)(tx_history_key card_id :=
           filter (\<lambda>e. \<not> snd e \<le> t - ttl)
             (zinsert (json_dumps L (PDict [(''amount'', av), (''merchant_id'', mv),
                                            (''timestamp'', tv)]), t)
                (filter (\<lambda>e. fst e \<noteq> json_dumps L (PDict [(''amount'', av),
                                           (''merchant_id'', mv), (''timestamp'', tv)]))
                   (zsets r (tx_history_key card_id))))),
        ttls := (ttls r)(tx_history_key card_id \<mapsto> ttl)\<rparr>)"
  using assms by (simp add: add_to_transaction_history_def Let_def)

lemma tx_history_key_inject [simp]: "tx_history_key c = tx_history_key c' \<longleftrightarrow> c = c'"
  by (simp add: tx_history_key_def)

lemma add_to_transaction_history_consistent:
  assumes cons: "history_consistent L r c'"
    and ts: "map_of tx ''timestamp'' = Some (PInt t)"
    and rt: "\<And>v. json_loads L (json_dumps L v) = Inr v"
  shows "history_consistent L (snd (add_to_transaction_history L r card_id tx ttl)) c'"
proof (cases "connected r \<and> map_of tx ''amount'' \<noteq> None \<and> map_of tx ''merchant_id'' \<noteq> None")
  case True
  then obtain av mv where f: "map_of tx ''amount'' = Some av" "map_of tx ''merchant_id'' = Some mv"
    by auto
  have c: "connected r" using True by simp
  show ?thesis
    using cons
    by (auto simp: add_to_transaction_history_connected[OF c ts f, where t = t] as_int_def
        history_consistent_def set_zinsert rt)
next
  case False
  then have "snd (add_to_transaction_history L r card_id tx ttl) = r"
    using ts
    by (cases "connected r")
       (auto simp: add_to_transaction_history_def Let_def item_def bind_exc_def
         split: option.splits sum.splits)
  with cons show ?thesis by simp
qed

subsection \<open>Rounding\<close>

lemma round_half_even_of_int [simp]: "round_half_even (of_int k) = k"
  by (simp add: round_half_even_def Let_def)

lemma round_half_even_bounds:
  "x - 1/2 \<le> of_int (round_half_even x)" "of_int (round_half_even x) \<le> x + 1/2"
  by (auto simp: round_half_even_def Let_def) linarith+

lemma round_half_even_mono:
  assumes "x \<le> y" shows "round_half_even x \<le> round_half_even y"
proof (cases "\<lfloor>x\<rfloor> = \<lfloor>y\<rfloor>")
  case True
  then show ?thesis using assms
    by (auto simp: round_half_even_def Let_def)
next
  case False
  with assms have "\<lfloor>x\<rfloor> < \<lfloor>y\<rfloor>" by (simp add: floor_mono order.strict_iff_order)
  then have "\<lfloor>x\<rfloor> + 1 \<le> \<lfloor>y\<rfloor>" by simp
  moreover have "round_half_even x \<le> \<lfloor>x\<rfloor> + 1"
    by (auto simp: round_half_even_def Let_def)
  moreover have "\<lfloor>y\<rfloor> \<le> round_half_even y"
    by (auto simp: round_half_even_def Let_def)
  ultimately show ?thesis by linarith
qed

lemma py_round_idem [simp]: "py_round (py_round x n) n = py_round x n"
  by (simp add: py_round_def)

lemma py_round_mono: "x \<le> y \<Longrightarrow> py_round x n \<le> py_round y n"
  by (simp add: py_round_def round_half_even_mono divide_right_mono)

lemma py_round_of_int [simp]: "py_round (of_int k) n = of_int k"
proof -
  have "(of_int k :: real) * 10 ^ n = of_int (k * 10 ^ n)" by simp
  then have "round_half_even (of_int k * 10 ^ n) = k * 10 ^ n"
    by (simp only: round_half_even_of_int)
  then show ?thesis by (simp add: py_round_def)
qed

lemma py_round_10000: "py_round 10000 2 = 10000"
  using py_round_of_int[of 10000 2] by simp

subsection \<open>Floats\<close>

lemma float_value_simps [simp]:
  "float_value (Finite x) = PFloat x"
  "float_value (NonFinite n) = PNonFinite n"
  "number_of (float_value f) = Some f"
  "as_float (float_value f) = Inr f"
  "py_float L (float_value f) = Inr f"
  "float_value f \<noteq> PNone"
  by (cases f; simp add: float_value_def number_of_def as_float_def py_float_def)+

lemma float_value_inject [simp]: "float_value f = float_value g \<longleftrightarrow> f = g"
  by (cases f; cases g) simp_all

lemma as_float_numbers [simp]:
  "as_float (PFloat x) = Inr (Finite x)"
  "as_float (PNonFinite n) = Inr (NonFinite n)"
  by (simp_all add: as_float_def number_of_def)

lemma normalize_amount_Finite:
  "normalize_amount P (Finite x) = Finite (py_round (min \<bar>x\<bar> (amount_clip_value P)) 2)"
  by (auto simp: normalize_amount_def Let_def pf_abs_def pf_round_def min_def)

lemma normalize_amount_NaN: "normalize_amount P (NonFinite NaN) = NonFinite NaN"
  by (simp add: normalize_amount_def Let_def pf_round_def)

lemma normalize_amount_infinite:
  "n \<noteq> NaN \<Longrightarrow> normalize_amount P (NonFinite n) = Finite (py_round (amount_clip_value P) 2)"
  by (cases n) (simp_all add: normalize_amount_def Let_def pf_abs_def pf_round_def)

lemma clip_round_fixed:
  assumes a: "a = py_round m 2" and m: "m \<le> c" and pos: "0 < a"
  shows "py_round (min \<bar>a\<bar> c) 2 = a"
proof (cases "a > c")
  case True
  from m have 1: "a \<le> py_round c 2" unfolding a by (rule py_round_mono)
  have "py_round c 2 \<le> py_round a 2"
    using True by (intro py_round_mono) simp
  then have "py_round c 2 \<le> a" by (simp add: a)
  with 1 True pos show ?thesis by (simp add: min_def)
next
  case False
  then show ?thesis using pos by (simp add: min_def a)
qed

lemma normalize_amount_fixed:
  assumes pos: "\<not> pf_le (normalize_amount P f) (Finite 0)"
  shows "normalize_amount P (normalize_amount P f) = normalize_amount P f"
proof (cases f)
  case (Finite x)
  define a where "a = py_round (min \<bar>x\<bar> (amount_clip_value P)) 2"
  have "0 < a" using pos by (simp add: Finite normalize_amount_Finite a_def)
  from clip_round_fixed[OF a_def _ this, of "amount_clip_value P"] show ?thesis
    by (simp add: Finite normalize_amount_Finite a_def[symmetric])
next
  case (NonFinite n)
  show ?thesis
  proof (cases "n = NaN")
    case True
    then show ?thesis by (simp add: NonFinite normalize_amount_NaN)
  next
    case False
    define a where "a = py_round (amount_clip_value P) 2"
    have "0 < a" using pos False by (simp add: NonFinite normalize_amount_infinite a_def)
    from clip_round_fixed[OF a_def _ this, of "amount_clip_value P"] show ?thesis
      using False
      by (simp add: NonFinite normalize_amount_infinite normalize_amount_Finite a_def[symmetric])
  qed
qed

lemma normalize_amount_bound:
  "py_round (min \<bar>x\<bar> c) 2 \<le> py_round c 2"
  by (rule py_round_mono) simp

subsection \<open>The steps of the preprocessor\<close>

lemma fill_defaults_map_of:
  "distinct (map fst fs) \<Longrightarrow>
   map_of (fill_defaults fs d) k =
     (if absent d k \<and> k \<in> fst ` set fs then map_of fs k else map_of d k)"
proof (induction fs arbitrary: d)
  case Nil
  then show ?case by simp
next
  case (Cons f fs)
  obtain field v where f: "f = (field, v)" by (cases f)
  from Cons.prems have d: "distinct (map fst fs)" and nf: "field \<notin> fst ` set fs"
    by (auto simp: f)
  have nm: "map_of fs field = None" using nf by (simp add: map_of_eq_None_iff)
  show ?case
    using nf nm
    by (auto simp: f Cons.IH[OF d] absent_def update_conv' split: option.splits)
qed

lemma handle_missing_values_map_of:
  "map_of (handle_missing_values d) k =
     (if absent d k \<and> k \<in> fst ` set OPTIONAL_FIELDS then map_of OPTIONAL_FIELDS k else map_of d k)"
  unfolding handle_missing_values_def
  by (rule fill_defaults_map_of) (simp add: OPTIONAL_FIELDS_def)

lemma cast_timestamp_other:
  "cast_timestamp t v = Inr t' \<Longrightarrow> k \<noteq> ''timestamp'' \<Longrightarrow> map_of t' k = map_of t k"
  by (cases v)
     (auto simp: cast_timestamp_def update_conv' bind_exc_def split: sum.splits)

lemma cast_timestamp_present:
  "cast_timestamp t v = Inr t' \<Longrightarrow> map_of t ''timestamp'' = Some v \<Longrightarrow>
   \<exists>v'. map_of t' ''timestamp'' = Some v' \<and> (\<forall>n. v' \<noteq> PNonFinite n)"
  by (cases v)
     (auto simp: cast_timestamp_def update_conv' bind_exc_def split: sum.splits)

lemma parse_timestamp_cases:
  "\<forall>n. v \<noteq> PNonFinite n \<Longrightarrow>
   (\<exists>n. parse_timestamp L v = Inr n) \<or>
   parse_timestamp L v = Inl (ValueError UnableToParseTimestamp) \<or>
   parse_timestamp L v = Inl (ValueError InvalidTimestampType)"
  by (cases v) (auto simp: parse_timestamp_def split: option.splits)

lemma cast_optional_float_other:
  "cast_optional_float L k t = Inr t' \<Longrightarrow> k' \<noteq> k \<Longrightarrow> map_of t' k' = map_of t k'"
  by (auto simp: cast_optional_float_def bind_exc_def update_conv' split: if_splits sum.splits)

lemma cast_optional_float_same:
  "cast_optional_float L k t = Inr t' \<Longrightarrow>
     (map_of t' k = map_of t k \<and> (map_of t k = None \<or> map_of t k = Some PNone)) \<or>
     (\<exists>x. map_of t' k = Some (float_value x))"
  by (auto simp: cast_optional_float_def bind_exc_def update_conv' dict_get_def
      split: if_splits sum.splits option.splits)

lemma bind_exc_Inr_iff: "bind_exc m f = Inr y \<longleftrightarrow> (\<exists>x. m = Inr x \<and> f x = Inr y)"
  by (cases m) simp_all

lemma item_Inr_iff: "item d k = Inr v \<longleftrightarrow> map_of d k = Some v"
  by (simp add: item_def split: option.splits)

lemma cast_fields_map_of:
  assumes "cast_fields L h = Inr t"
  shows "\<exists>s. map_of t ''transaction_id'' = Some (PStr s)"
    and "\<exists>s. map_of t ''card_id'' = Some (PStr s)"
    and "\<exists>s. map_of t ''merchant_id'' = Some (PStr s)"
    and "\<exists>s. map_of t ''merchant_category'' = Some (PStr s)"
    and "\<exists>va a. map_of h ''amount'' = Some va \<and> py_float L va = Inr a \<and>
                  map_of t ''amount'' = Some (float_value a)"
    and "\<exists>v'. map_of t ''timestamp'' = Some v' \<and> (\<forall>n. v' \<noteq> PNonFinite n)"
    and "(map_of t ''location_lat'' = map_of h ''location_lat'' \<and>
               (map_of h ''location_lat'' = None \<or> map_of h ''location_lat'' = Some PNone)) \<or>
              (\<exists>x. map_of t ''location_lat'' = Some (float_value x))"
    and "(map_of t ''location_lon'' = map_of h ''location_lon'' \<and>
               (map_of h ''location_lon'' = None \<or> map_of h ''location_lon'' = Some PNone)) \<or>
              (\<exists>x. map_of t ''location_lon'' = Some (float_value x))"
    and "k \<notin> {''transaction_id'', ''card_id'', ''merchant_id'', ''merchant_category'',
                ''amount'', ''timestamp'', ''location_lat'', ''location_lon''} \<Longrightarrow>
              map_of t k = map_of h k"
proof -
  from assms obtain v1 v2 v3 va a vt t6 t7 where
    f: "map_of h ''transaction_id'' = Some v1" "map_of h ''card_id'' = Some v2"
       "map_of h ''merchant_id'' = Some v3" "map_of h ''amount'' = Some va"
       "py_float L va = Inr a" "map_of h ''timestamp'' = Some vt"
    and ts: "cast_timestamp
          (AList.update ''amount'' (float_value a)
            (AList.update ''merchant_category''
               (PStr (py_str L (dict_get h ''merchant_category'' (PStr ''UNKNOWN''))))
               (AList.update ''merchant_id'' (PStr (py_str L v3))
                 (AList.update ''card_id'' (PStr (py_str L v2))
                   (AList.update ''transaction_id'' (PStr (py_str L v1)) h))))) vt = Inr t6"
    and lat: "cast_optional_float L ''location_lat'' t6 = Inr t7"
    and lon: "cast_optional_float L ''location_lon'' t7 = Inr t"
    unfolding cast_fields_def
    by (auto simp: bind_exc_Inr_iff item_Inr_iff Let_def update_conv' dict_get_def)
  have t6: "\<And>k. k \<noteq> ''timestamp'' \<Longrightarrow> map_of t6 k =
     ((map_of h)(''transaction_id'' \<mapsto> PStr (py_str L v1),
        ''card_id'' \<mapsto> PStr (py_str L v2), ''merchant_id'' \<mapsto> PStr (py_str L v3),
        ''merchant_category'' \<mapsto>
           PStr (py_str L (dict_get h ''merchant_category'' (PStr ''UNKNOWN''))),
        ''amount'' \<mapsto> float_value a)) k"
    by (simp add: cast_timestamp_other[OF ts] update_conv')
  have t6ts: "\<exists>v'. map_of t6 ''timestamp'' = Some v' \<and> (\<forall>n. v' \<noteq> PNonFinite n)"
    by (rule cast_timestamp_present[OF ts]) (simp add: update_conv' f)
  have other: "\<And>k. k \<noteq> ''location_lat'' \<Longrightarrow> k \<noteq> ''location_lon'' \<Longrightarrow> map_of t k = map_of t6 k"
    using cast_optional_float_other[OF lon] cast_optional_float_other[OF lat] by simp
  have latk: "(map_of t ''location_lat'' = map_of h ''location_lat'' \<and>
               (map_of h ''location_lat'' = None \<or> map_of h ''location_lat'' = Some PNone)) \<or>
              (\<exists>x. map_of t ''location_lat'' = Some (float_value x))"
    using cast_optional_float_same[OF lat] cast_optional_float_other[OF lon, of "''location_lat''"]
    by (simp add: t6)
  have lonk: "(map_of t ''location_lon'' = map_of h ''location_lon'' \<and>
               (map_of h ''location_lon'' = None \<or> map_of h ''location_lon'' = Some PNone)) \<or>
              (\<exists>x. map_of t ''location_lon'' = Some (float_value x))"
    using cast_optional_float_same[OF lon] cast_optional_float_other[OF lat, of "''location_lon''"]
    by (simp add: t6)
  show "\<exists>s. map_of t ''transaction_id'' = Some (PStr s)"
       "\<exists>s. map_of t ''card_id'' = Some (PStr s)"
       "\<exists>s. map_of t ''merchant_id'' = Some (PStr s)"
       "\<exists>s. map_of t ''merchant_category'' = Some (PStr s)"
    by (simp_all add: other t6)
  show "\<exists>va a. map_of h ''amount'' = Some va \<and> py_float L va = Inr a \<and>
                  map_of t ''amount'' = Some (float_value a)"
    using f by (simp add: other t6)
  show "\<exists>v'. map_of t ''timestamp'' = Some v' \<and> (\<forall>n. v' \<noteq> PNonFinite n)"
    using t6ts by (simp add: other)
  show "(map_of t ''location_lat'' = map_of h ''location_lat'' \<and>
               (map_of h ''location_lat'' = None \<or> map_of h ''location_lat'' = Some PNone)) \<or>
              (\<exists>x. map_of t ''location_lat'' = Some (float_value x))"
    by (rule latk)
  show "(map_of t ''location_lon'' = map_of h ''location_lon'' \<and>
               (map_of h ''location_lon'' = None \<or> map_of h ''location_lon'' = Some PNone)) \<or>
              (\<exists>x. map_of t ''location_lon'' = Some (float_value x))"
    by (rule lonk)
  show "map_of t k = map_of h k"
    if "k \<notin> {''transaction_id'', ''card_id'', ''merchant_id'', ''merchant_category'',
                ''amount'', ''timestamp'', ''location_lat'', ''location_lon''}"
    using that by (simp add: other t6)
qed

lemma cast_types_Inr_iff: "cast_types L h = Inr t \<longleftrightarrow> cast_fields L h = Inr t"
  by (auto simp: cast_types_def split: sum.splits exn.splits)

lemma validate_ranges_positive:
  "validate_ranges t = Inr () \<Longrightarrow> map_of t ''amount'' = Some (float_value f) \<Longrightarrow>
   \<not> pf_le f (Finite 0)"
  by (auto simp: validate_ranges_def bind_exc_def split: if_splits)

lemma preprocess_Inr:
  assumes "preprocess L P (PDict d) = Inr out"
  obtains t2 f vt n where
    "validate_schema (PDict d)"
    "cast_fields L (handle_missing_values d) = Inr t2"
    "map_of t2 ''amount'' = Some (float_value f)"
    "map_of t2 ''timestamp'' = Some vt" "parse_timestamp L vt = Inr n"
    "out = AList.update ''timestamp'' (PInt n)
             (AList.update ''amount'' (float_value (normalize_amount P f)) t2)"
    "validate_ranges out = Inr ()"
proof -
  from assms have v: "validate_schema (PDict d)"
    by (cases "validate_schema (PDict d)") (simp_all add: preprocess_def)
  from assms v have 1: "bind_exc (cast_types L (handle_missing_values d)) (\<lambda>processed2.
             bind_exc (item processed2 ''amount'') (\<lambda>v.
             bind_exc (as_float v) (\<lambda>amount.
             bind_exc (item (AList.update ''amount'' (float_value (normalize_amount P amount))
                               processed2) ''timestamp'') (\<lambda>v.
             bind_exc (parse_timestamp L v) (\<lambda>timestamp.
             bind_exc (validate_ranges (AList.update ''timestamp'' (PInt timestamp)
                   (AList.update ''amount'' (float_value (normalize_amount P amount))
                      processed2))) (\<lambda>u.
             Inr (AList.update ''timestamp'' (PInt timestamp)
                   (AList.update ''amount'' (float_value (normalize_amount P amount))
                      processed2)))))))) = Inr out"
    by (simp add: preprocess_def Let_def)
  then obtain t2 where t2: "cast_types L (handle_missing_values d) = Inr t2"
    and 2: "bind_exc (item t2 ''amount'') (\<lambda>v.
             bind_exc (as_float v) (\<lambda>amount.
             bind_exc (item (AList.update ''amount'' (float_value (normalize_amount P amount)) t2)
                         ''timestamp'') (\<lambda>v.
             bind_exc (parse_timestamp L v) (\<lambda>timestamp.
             bind_exc (validate_ranges (AList.update ''timestamp'' (PInt timestamp)
                   (AList.update ''amount'' (float_value (normalize_amount P amount)) t2))) (\<lambda>u.
             Inr (AList.update ''timestamp'' (PInt timestamp)
                   (AList.update ''amount'' (float_value (normalize_amount P amount)) t2)))))))
           = Inr out"
    unfolding bind_exc_Inr_iff[of "cast_types L (handle_missing_values d)"] by blast
  from t2 have cf: "cast_fields L (handle_missing_values d) = Inr t2"
    by (simp add: cast_types_Inr_iff)
  from cast_fields_map_of(5)[OF cf] obtain f where f: "map_of t2 ''amount'' = Some (float_value f)"
    by blast
  from 2 f have 3: "bind_exc (item (AList.update ''amount'' (float_value (normalize_amount P f)) t2)
                         ''timestamp'') (\<lambda>v.
             bind_exc (parse_timestamp L v) (\<lambda>timestamp.
             bind_exc (validate_ranges (AList.update ''timestamp'' (PInt timestamp)
                   (AList.update ''amount'' (float_value (normalize_amount P f)) t2))) (\<lambda>u.
             Inr (AList.update ''timestamp'' (PInt timestamp)
                   (AList.update ''amount'' (float_value (normalize_amount P f)) t2))))) = Inr out"
    by simp
  from cast_fields_map_of(6)[OF cf] obtain vt where vt: "map_of t2 ''timestamp'' = Some vt"
    by blast
  from 3 vt have 4: "bind_exc (parse_timestamp L vt) (\<lambda>timestamp.
             bind_exc (validate_ranges (AList.update ''timestamp'' (PInt timestamp)
                   (AList.update ''amount'' (float_value (normalize_amount P f)) t2))) (\<lambda>u.
             Inr (AList.update ''timestamp'' (PInt timestamp)
                   (AList.update ''amount'' (float_value (normalize_amount P f)) t2)))) = Inr out"
    by (simp add: update_conv')
  then obtain n where n: "parse_timestamp L vt = Inr n"
    and 5: "bind_exc (validate_ranges (AList.update ''timestamp'' (PInt n)
                   (AList.update ''amount'' (float_value (normalize_amount P f)) t2))) (\<lambda>u.
             Inr (AList.update ''timestamp'' (PInt n)
                   (AList.update ''amount'' (float_value (normalize_amount P f)) t2))) = Inr out"
    unfolding bind_exc_Inr_iff[of "parse_timestamp L vt"] by blast
  from 5 have out: "out = AList.update ''timestamp'' (PInt n)
                   (AList.update ''amount'' (float_value (normalize_amount P f)) t2)"
    and vr: "validate_ranges (AList.update ''timestamp'' (PInt n)
                   (AList.update ''amount'' (float_value (normalize_amount P f)) t2)) = Inr ()"
    by (auto simp: bind_exc_Inr_iff)
  from v cf f vt n out vr show ?thesis
    by (intro that[of t2 f vt n]) simp_all
qed

lemma handle_missing_values_optional:
  assumes "k \<in> {''merchant_category'', ''location_lat'', ''location_lon'', ''city'', ''state'',
                  ''user_id''}"
  shows "\<exists>v. map_of (handle_missing_values d) k = Some v \<and>
             (v = PNone \<longrightarrow> k = ''location_lat'' \<or> k = ''location_lon'')"
  using assms
  by (auto simp: handle_missing_values_map_of absent_def OPTIONAL_FIELDS_def
      split: option.splits)

lemma preprocess_normalized:
  assumes "preprocess L P (PDict d) = Inr out"
  shows "normalized_record P out"
proof -
  from assms obtain t2 f vt n where
    t2: "cast_fields L (handle_missing_values d) = Inr t2"
    and out: "out = AList.update ''timestamp'' (PInt n)
             (AList.update ''amount'' (float_value (normalize_amount P f)) t2)"
    and vr: "validate_ranges out = Inr ()"
    by (rule preprocess_Inr)
  have m: "map_of out = (map_of t2)(''amount'' \<mapsto> float_value (normalize_amount P f),
                                     ''timestamp'' \<mapsto> PInt n)"
    by (simp add: out update_conv')
  have pos: "\<not> pf_le (normalize_amount P f) (Finite 0)"
    by (rule validate_ranges_positive[OF vr]) (simp add: m)
  note cf = cast_fields_map_of[OF t2]
  have city: "\<exists>v. map_of out ''city'' = Some v \<and> v \<noteq> PNone"
    using handle_missing_values_optional[of "''city''" d] cf(9)[of "''city''"]
    by (simp add: m)
  have state: "\<exists>v. map_of out ''state'' = Some v \<and> v \<noteq> PNone"
    using handle_missing_values_optional[of "''state''" d] cf(9)[of "''state''"]
    by (simp add: m)
  have user: "\<exists>v. map_of out ''user_id'' = Some v \<and> v \<noteq> PNone"
    using handle_missing_values_optional[of "''user_id''" d] cf(9)[of "''user_id''"]
    by (simp add: m)
  have lat: "map_of out ''location_lat'' = Some PNone \<or>
        (\<exists>x. map_of out ''location_lat'' = Some (float_value x))"
    using cf(7) handle_missing_values_optional[of "''location_lat''" d]
    by (auto simp: m)
  have lon: "map_of out ''location_lon'' = Some PNone \<or>
        (\<exists>x. map_of out ''location_lon'' = Some (float_value x))"
    using cf(8) handle_missing_values_optional[of "''location_lon''" d]
    by (auto simp: m)
  have strs: "\<exists>s. map_of out ''transaction_id'' = Some (PStr s)"
             "\<exists>s. map_of out ''card_id'' = Some (PStr s)"
             "\<exists>s. map_of out ''merchant_id'' = Some (PStr s)"
             "\<exists>s. map_of out ''merchant_category'' = Some (PStr s)"
    using cf(1-4) by (simp_all add: m)
  have am: "\<exists>a. map_of out ''amount'' = Some (float_value a) \<and> normalize_amount P a = a"
    using normalize_amount_fixed[OF pos] by (auto simp: m)
  have ts: "\<exists>n. map_of out ''timestamp'' = Some (PInt n)"
    by (simp add: m)
  show ?thesis
    unfolding normalized_record_def
    using strs am ts lat lon city state user vr by (intro conjI)
qed

lemma handle_missing_values_fixed:
  assumes "normalized_record P out"
  shows "handle_missing_values out = out"
proof -
  from assms have
    mc: "\<exists>s. map_of out ''merchant_category'' = Some (PStr s)" and
    lat: "map_of out ''location_lat'' = Some PNone \<or>
        (\<exists>x. map_of out ''location_lat'' = Some (float_value x))" and
    lon: "map_of out ''location_lon'' = Some PNone \<or>
        (\<exists>x. map_of out ''location_lon'' = Some (float_value x))" and
    city: "\<exists>v. map_of out ''city'' = Some v \<and> v \<noteq> PNone" and
    state: "\<exists>v. map_of out ''state'' = Some v \<and> v \<noteq> PNone" and
    user: "\<exists>v. map_of out ''user_id'' = Some v \<and> v \<noteq> PNone"
    by (simp_all add: normalized_record_def)
  have 1: "(if absent out ''merchant_category''
            then AList.update ''merchant_category'' (PStr ''UNKNOWN'') out else out) = out"
    using mc by (auto simp: absent_def)
  have 2: "(if absent out ''location_lat'' then AList.update ''location_lat'' PNone out else out)
             = out"
    using lat by (auto simp: absent_def update_triv)
  have 3: "(if absent out ''location_lon'' then AList.update ''location_lon'' PNone out else out)
             = out"
    using lon by (auto simp: absent_def update_triv)
  have 4: "(if absent out ''city'' then AList.update ''city'' (PStr []) out else out) = out"
    using city by (auto simp: absent_def)
  have 5: "(if absent out ''state'' then AList.update ''state'' (PStr []) out else out) = out"
    using state by (auto simp: absent_def)
  have 6: "(if absent out ''user_id'' then AList.update ''user_id'' (PStr []) out else out) = out"
    using user by (auto simp: absent_def)
  show ?thesis
    by (simp only: handle_missing_values_def OPTIONAL_FIELDS_def fill_defaults.simps 1 2 3 4 5 6)
qed

lemma cast_optional_float_fixed:
  assumes "map_of t k = Some PNone \<or> (\<exists>x. map_of t k = Some (float_value x))"
  shows "cast_optional_float L k t = Inr t"
  using assms
  by (auto simp: cast_optional_float_def dict_get_def update_triv)

lemma cast_fields_fixed:
  assumes "normalized_record P out"
  shows "cast_fields L out = Inr out"
proof -
  from assms obtain s1 s2 s3 s4 a n where
    f: "map_of out ''transaction_id'' = Some (PStr s1)"
       "map_of out ''card_id'' = Some (PStr s2)"
       "map_of out ''merchant_id'' = Some (PStr s3)"
       "map_of out ''merchant_category'' = Some (PStr s4)"
       "map_of out ''amount'' = Some (float_value a)"
       "map_of out ''timestamp'' = Some (PInt n)"
    unfolding normalized_record_def by blast
  from assms have
    lat: "map_of out ''location_lat'' = Some PNone \<or>
        (\<exists>x. map_of out ''location_lat'' = Some (float_value x))" and
    lon: "map_of out ''location_lon'' = Some PNone \<or>
        (\<exists>x. map_of out ''location_lon'' = Some (float_value x))"
    by (simp_all add: normalized_record_def)
  have u: "AList.update ''transaction_id'' (PStr s1) out = out"
          "AList.update ''card_id'' (PStr s2) out = out"
          "AList.update ''merchant_id'' (PStr s3) out = out"
          "AList.update ''merchant_category'' (PStr s4) out = out"
          "AList.update ''amount'' (float_value a) out = out"
          "AList.update ''timestamp'' (PInt n) out = out"
    using f by (simp_all add: update_triv)
  show ?thesis
    unfolding cast_fields_def
    by (simp add: f u py_str_def dict_get_def cast_timestamp_def Let_def
        cast_optional_float_fixed[OF lat] cast_optional_float_fixed[OF lon])
qed

lemma preprocess_fixed:
  assumes "normalized_record P out"
  shows "preprocess L P (PDict out) = Inr out"
proof -
  from assms obtain s1 s2 s3 a n where
    f: "map_of out ''transaction_id'' = Some (PStr s1)"
       "map_of out ''card_id'' = Some (PStr s2)"
       "map_of out ''merchant_id'' = Some (PStr s3)"
       "map_of out ''amount'' = Some (float_value a)" "normalize_amount P a = a"
       "map_of out ''timestamp'' = Some (PInt n)"
    unfolding normalized_record_def by blast
  from assms have vr: "validate_ranges out = Inr ()"
    by (simp add: normalized_record_def)
  have v: "validate_schema (PDict out)"
    using f by (simp add: validate_schema_def REQUIRED_FIELDS_def absent_def)
  have u: "AList.update ''amount'' (float_value a) out = out"
          "AList.update ''timestamp'' (PInt n) out = out"
    using f by (simp_all add: update_triv)
  have c: "cast_types L out = Inr out"
    by (simp add: cast_types_def cast_fields_fixed[OF assms])
  show ?thesis
    by (simp add: preprocess_def v handle_missing_values_fixed[OF assms] c f u vr
        parse_timestamp_def Let_def)
qed

lemma preprocess_twice:
  assumes "preprocess L P raw = Inr out"
  shows "preprocess L P (PDict out) = Inr out"
proof -
  from assms obtain d where "raw = PDict d"
    by (cases raw) (auto simp: preprocess_def validate_schema_def)
  with assms show ?thesis
    by (intro preprocess_fixed preprocess_normalized[of L P d]) simp
qed

subsection \<open>The cold start event\<close>

lemma py_round_100: "py_round 100 2 = 100"
  by (simp add: py_round_def round_half_even_def Let_def)

lemma preprocess_event_amount:
  "preprocess L P (PDict (AList.update ''amount'' (float_value f) cold_start_event)) =
     (if pf_le (normalize_amount P f) (Finite 0) then Inl (ValueError AmountMustBePositive)
      else Inr (AList.update ''amount'' (float_value (normalize_amount P f))
                  cold_start_preprocessed))"
proof -
  define e where "e = AList.update ''amount'' (float_value f) cold_start_event"
  define h where "h = AList.update ''amount'' (float_value f) cold_start_preprocessed"
  have e: "e = [(''transaction_id'', PStr ''A''), (''card_id'', PStr ''C1''),
                (''amount'', float_value f), (''merchant_id'', PStr ''M1''),
                (''timestamp'', PInt 1707580000)]"
    by (simp add: e_def cold_start_event_def)
  have h: "h = [(''transaction_id'', PStr ''A''), (''card_id'', PStr ''C1''),
                (''amount'', float_value f), (''merchant_id'', PStr ''M1''),
                (''timestamp'', PInt 1707580000),
                (''merchant_category'', PStr ''UNKNOWN''), (''location_lat'', PNone),
                (''location_lon'', PNone), (''city'', PStr []), (''state'', PStr []),
                (''user_id'', PStr [])]"
    by (simp add: h_def cold_start_preprocessed_def cold_start_event_def)
  have v: "validate_schema (PDict e)"
    by (simp add: validate_schema_def e REQUIRED_FIELDS_def absent_def)
  have hm: "handle_missing_values e = h"
    by (simp add: handle_missing_values_def OPTIONAL_FIELDS_def e h absent_def)
  have c: "cast_types L h = Inr h"
    by (simp add: cast_types_def cast_fields_def h
        py_str_def cast_timestamp_def cast_optional_float_def dict_get_def Let_def)
  define res where "res = AList.update ''amount'' (float_value (normalize_amount P f)) h"
  have res: "res = [(''transaction_id'', PStr ''A''), (''card_id'', PStr ''C1''),
                (''amount'', float_value (normalize_amount P f)), (''merchant_id'', PStr ''M1''),
                (''timestamp'', PInt 1707580000),
                (''merchant_category'', PStr ''UNKNOWN''), (''location_lat'', PNone),
                (''location_lon'', PNone), (''city'', PStr []), (''state'', PStr []),
                (''user_id'', PStr [])]"
    by (simp add: res_def h)
  have res': "res = AList.update ''amount'' (float_value (normalize_amount P f))
                      cold_start_preprocessed"
    by (simp add: res cold_start_preprocessed_def cold_start_event_def)
  have r: "validate_ranges res =
             (if pf_le (normalize_amount P f) (Finite 0)
              then Inl (ValueError AmountMustBePositive) else Inr ())"
    by (simp add: validate_ranges_def validate_coordinate_def res as_int_def dict_get_def)
  have i: "item h ''amount'' = Inr (float_value f)"
          "item res ''timestamp'' = Inr (PInt 1707580000)"
    by (simp_all add: h res)
  have u: "AList.update ''timestamp'' (PInt 1707580000) res = res"
    by (simp add: res)
  have "preprocess L P (PDict e) =
     (if pf_le (normalize_amount P f) (Finite 0)
      then Inl (ValueError AmountMustBePositive) else Inr res)"
    by (simp add: preprocess_def v hm c i res_def[symmetric] u r parse_timestamp_def Let_def)
  then show ?thesis by (simp add: e_def res')
qed

lemma cold_start_preprocess:
  "preprocess L (TransactionPreprocessor p) (PDict cold_start_event) = Inr cold_start_preprocessed"
proof -
  have n: "normalize_amount (TransactionPreprocessor p) (Finite 100) = Finite 100"
    by (simp add: normalize_amount_Finite TransactionPreprocessor_def py_round_100)
  have e: "AList.update ''amount'' (float_value (Finite 100)) cold_start_event = cold_start_event"
    by (simp add: cold_start_event_def)
  have o: "AList.update ''amount'' (float_value (Finite 100)) cold_start_preprocessed
             = cold_start_preprocessed"
    by (simp add: cold_start_preprocessed_def cold_start_event_def)
  from preprocess_event_amount[of L "TransactionPreprocessor p" "Finite 100"]
  show ?thesis unfolding n e o by simp
qed

section \<open>The rolling average\<close>

text \<open>
  C1.  For every card and every event processed for it, the rolling average stored after
  the update is 0.1 times the event's amount plus 0.9 times the previously stored average,
  the previous average being 75 when none is stored; \<^verbatim>\<open>update_rolling_average\<close> returns the
  new value.  Stated for a reachable store whose \<open>avg_amount\<close> field, when present, holds a
  number: first for the method itself, then for \<^verbatim>\<open>update_card_state\<close> on an event as the
  preprocessor produces it, with the configured smoothing factor.
\<close>

theorem update_rolling_average_ema:
  assumes "connected r"
    and "\<not> unreadable_average r card_id"
  shows "(let new_avg = 1/10 * amount + 9/10 * previous_average r card_id;
              (returned, r') = update_rolling_average r card_id amount (1/10)
          in returned = new_avg \<and> get_rolling_average r' card_id = Some new_avg) \<and>
         (\<forall>tx t m. map_of tx ''amount'' = Some (PFloat amount) \<and>
                   map_of tx ''timestamp'' = Some (PInt t) \<and>
                   map_of tx ''merchant_id'' = Some (PStr m) \<longrightarrow>
            (\<exists>r'. update_card_state L FEATURE_CONFIG r card_id tx = Inr r' \<and>
                  get_rolling_average r' card_id
                    = Some (1/10 * amount + 9/10 * previous_average r card_id)))"
proof (intro conjI allI impI)
  show "let new_avg = 1/10 * amount + 9/10 * previous_average r card_id;
            (returned, r') = update_rolling_average r card_id amount (1/10)
        in returned = new_avg \<and> get_rolling_average r' card_id = Some new_avg"
    using assms
    by (simp add: update_rolling_average_connected get_rolling_average_stored update_conv')
next
  fix tx t m
  assume f: "map_of tx ''amount'' = Some (PFloat amount) \<and>
             map_of tx ''timestamp'' = Some (PInt t) \<and>
             map_of tx ''merchant_id'' = Some (PStr m)"
  from f update_card_state_stats[OF assms, where tx = tx and av = "PFloat amount"
      and tv = "PInt t" and mv = "PStr m" and a = amount and t = t and L = L
      and cfg = FEATURE_CONFIG]
  obtain r' where r': "update_card_state L FEATURE_CONFIG r card_id tx = Inr r'" "connected r'"
     "hashes r' = (hashes r)(stats_key card_id :=
              AList.update ''last_tx_timestamp'' (RInt t)
                (AList.update ''avg_amount''
                   (RFloat (rolling_avg_alpha FEATURE_CONFIG * amount
                            + (1 - rolling_avg_alpha FEATURE_CONFIG) * previous_average r card_id))
                   (hashes r (stats_key card_id))))"
    by (auto simp: as_real_def as_int_def)
  have "get_rolling_average r' card_id
          = Some (1/10 * amount + 9/10 * previous_average r card_id)"
    by (rule get_rolling_average_stored[OF r'(2), THEN trans])
       (simp_all add: r'(3) update_conv' FEATURE_CONFIG_def)
  with r'(1) show "\<exists>r'. update_card_state L FEATURE_CONFIG r card_id tx = Inr r' \<and>
                  get_rolling_average r' card_id
                    = Some (1/10 * amount + 9/10 * previous_average r card_id)"
    by blast
qed

theorem update_rolling_average_ema_witness:
  "connected empty_store \<and> \<not> unreadable_average empty_store ''C1'' \<and>
   previous_average empty_store ''C1'' = 75 \<and>
   fst (update_rolling_average empty_store ''C1'' 100 (1/10)) = 155/2 \<and>
   get_rolling_average (snd (update_rolling_average empty_store ''C1'' 100 (1/10))) ''C1''
     = Some (155/2)"
proof -
  have c: "connected empty_store" by (simp add: empty_store_def)
  have n: "\<not> unreadable_average empty_store ''C1''"
    by (simp add: unreadable_average_def empty_store_def)
  have p: "previous_average empty_store ''C1'' = 75"
    by (simp add: previous_average_def empty_store_def)
  from update_rolling_average_ema[OF c n, of 100 utc_lib] c n p show ?thesis
    by (simp add: Let_def split: prod.splits)
qed

section \<open>The transaction history\<close>

text \<open>
  C2.  Whatever \<^verbatim>\<open>get_transaction_history(card, w, t)\<close> returns is the decoding of a stored
  entry whose score, the time stamp it was stored under, lies in the interval from
  \<open>t - w\<close> to \<open>t\<close>, both ends included; when the history is consistent, the
  \<open>timestamp\<close> field of the returned dictionary lies in that interval.  In particular
  nothing later than \<open>t\<close> is returned.
\<close>

theorem get_transaction_history_in_window:
  assumes "tx \<in> set (get_transaction_history L r card_id w t)"
  shows "(\<exists>member score. (member, score) \<in> set (zsets r (tx_history_key card_id)) \<and>
            json_loads L member = Inr tx \<and> t - w \<le> score \<and> score \<le> t) \<and>
         (history_consistent L r card_id \<longrightarrow>
            (\<exists>d ts. tx = PDict d \<and> map_of d ''timestamp'' = Some (PInt ts) \<and>
                    t - w \<le> ts \<and> ts \<le> t))"
proof -
  from get_transaction_history_cases[of L r card_id w t] assms
  have eq: "get_transaction_history L r card_id w t =
      List.map_filter (decoded L)
        (map fst (filter (\<lambda>e. t - w \<le> snd e \<and> snd e \<le> t)
                    (zsets r (tx_history_key card_id))))"
    by auto
  from assms obtain e where e0: "e \<in> set (zsets r (tx_history_key card_id))"
      "decoded L (fst e) = Some tx" "t - w \<le> snd e" "snd e \<le> t"
    by (auto simp: eq List.map_filter_def)
  from e0(2) have "json_loads L (fst e) = Inr tx"
    by (simp add: decoded_def split: sum.splits)
  note e = e0(1) this e0(3,4)
  have first: "\<exists>member score. (member, score) \<in> set (zsets r (tx_history_key card_id)) \<and>
            json_loads L member = Inr tx \<and> t - w \<le> score \<and> score \<le> t"
    using e by (intro exI[of _ "fst e"] exI[of _ "snd e"]) simp
  have second: "\<exists>d ts. tx = PDict d \<and> map_of d ''timestamp'' = Some (PInt ts) \<and>
                    t - w \<le> ts \<and> ts \<le> t" if "history_consistent L r card_id"
  proof -
    from that e(1) have "case json_loads L (fst e) of
          Inl e' \<Rightarrow> True
        | Inr tx \<Rightarrow> (case tx of PDict d \<Rightarrow> map_of d ''timestamp'' = Some (PInt (snd e))
                               | _ \<Rightarrow> False)"
      unfolding history_consistent_def by blast
    with e(2) obtain d where "tx = PDict d" "map_of d ''timestamp'' = Some (PInt (snd e))"
      by (cases tx) auto
    with e(3,4) show ?thesis by blast
  qed
  from first second show ?thesis by blast
qed

theorem get_transaction_history_in_window_witness:
  "PDict [(''timestamp'', PInt 1707580000)]
     \<in> set (get_transaction_history decoding_lib
                (empty_store\<lparr>zsets := (\<lambda>key. [(''junk'', 1707579900), (''{}'', 1707580000)])\<rparr>)
                ''C1'' 600 1707580300) \<and>
   history_consistent decoding_lib
     (empty_store\<lparr>zsets := (\<lambda>key. [(''junk'', 1707579900), (''{}'', 1707580000)])\<rparr>) ''C1'' \<and>
   (\<exists>d ts. PDict [(''timestamp'', PInt 1707580000)] = PDict d \<and>
            map_of d ''timestamp'' = Some (PInt ts) \<and>
            1707580300 - 600 \<le> ts \<and> ts \<le> 1707580300)"
proof -
  let ?r = "empty_store\<lparr>zsets := (\<lambda>key. [(''junk'', 1707579900), (''{}'', 1707580000)])\<rparr>"
  have c: "connected ?r" by (simp add: empty_store_def)
  have m: "PDict [(''timestamp'', PInt 1707580000)]
             \<in> set (get_transaction_history decoding_lib ?r ''C1'' 600 1707580300)"
    by (simp add: get_transaction_history_def decode_replies_def decoding_lib_def utc_lib_def
        empty_store_def Let_def)
  have h: "history_consistent decoding_lib ?r ''C1''"
    by (simp add: history_consistent_def decoding_lib_def utc_lib_def)
  from get_transaction_history_in_window[OF m] m h show ?thesis by blast
qed

section \<open>The cold start scenario\<close>

lemma cold_start_velocity:
  "compute_velocity_features L FEATURE_CONFIG empty_store ''C1'' 1707580000 =
     Inr [(''tx_count_10m'', PInt 0), (''total_amount_10m'', PInt 0),
          (''tx_count_1h'', PInt 0), (''total_amount_1h'', PInt 0),
          (''tx_count_24h'', PInt 0), (''total_amount_24h'', PInt 0),
          (''unique_merchants_24h'', PInt 0), (''time_since_last_tx'', PInt 0)]"
  by (simp add: compute_velocity_features_def FEATURE_CONFIG_def empty_store_def Let_def
      get_transaction_history_def decode_replies_def get_unique_merchant_count_def
      get_last_transaction_timestamp_def truthy_def py_round_val_def)

lemma cold_start_rolling:
  "compute_rolling_features FEATURE_CONFIG empty_store ''C1'' 100 =
     [(''avg_tx_amount_30d'', PFloat 75),
      (''amount_deviation'', PFloat (333/1000)),
      (''amount_vs_avg_ratio'', PFloat (1333/1000))]"
  by (simp add: compute_rolling_features_def FEATURE_CONFIG_def empty_store_def Let_def
      get_rolling_average_def truthy_def py_round_val_def py_round_def round_half_even_def)

lemma cold_start_temporal:
  "utc_offset L 1707580000 = 0 \<Longrightarrow>
   compute_temporal_features L 1707580000 =
     [(''hour_of_day'', PInt 15), (''day_of_week'', PInt 5),
      (''is_weekend'', PInt 1), (''is_night'', PInt 0)]"
  by (simp add: compute_temporal_features_def Let_def)

lemma cold_start_extract:
  assumes "utc_offset L 1707580000 = 0"
  shows "extract_features L FEATURE_CONFIG empty_store cold_start_preprocessed
           = Inr cold_start_features"
proof -
  have tx: "compute_transaction_features cold_start_preprocessed =
     Inr [(''amount'', PFloat 100), (''amount_log'', PFloat (safe_log 100)),
          (''merchant_category'', PStr ''UNKNOWN''), (''has_location'', PInt 0)]"
    by (simp add: compute_transaction_features_def cold_start_preprocessed_def
        cold_start_event_def as_real_def dict_get_def)
  have m: "get_merchant_features empty_store ''M1'' = default_merchant_features"
    by (simp add: get_merchant_features_def empty_store_def Let_def)
  have i: "item cold_start_preprocessed ''card_id'' = Inr (PStr ''C1'')"
          "item cold_start_preprocessed ''merchant_id'' = Inr (PStr ''M1'')"
          "item cold_start_preprocessed ''amount'' = Inr (PFloat 100)"
          "item cold_start_preprocessed ''timestamp'' = Inr (PInt 1707580000)"
          "item cold_start_preprocessed ''transaction_id'' = Inr (PStr ''A'')"
    by (simp_all add: cold_start_preprocessed_def cold_start_event_def)
  show ?thesis
    unfolding extract_features_def
    by (simp add: i tx cold_start_velocity cold_start_rolling cold_start_temporal[OF assms] m
        as_int_def as_real_def py_str_def default_merchant_features_def
        cold_start_features_def Let_def)
qed

lemma cold_start_update:
  "\<exists>r'. update_card_state L FEATURE_CONFIG empty_store ''C1'' cold_start_preprocessed = Inr r' \<and>
        connected r' \<and>
        hashes r' (stats_key ''C1'') =
          [(''avg_amount'', RFloat (155/2)), (''last_tx_timestamp'', RInt 1707580000)]"
proof -
  have c: "connected empty_store" by (simp add: empty_store_def)
  have n: "\<not> unreadable_average empty_store ''C1''"
    by (simp add: unreadable_average_def empty_store_def)
  have p: "previous_average empty_store ''C1'' = 75"
    by (simp add: previous_average_def empty_store_def)
  from update_card_state_stats[OF c n, where tx = cold_start_preprocessed
      and av = "PFloat 100" and tv = "PInt 1707580000" and mv = "PStr ''M1''"
      and a = 100 and t = 1707580000 and L = L and cfg = FEATURE_CONFIG]
  obtain r' where "update_card_state L FEATURE_CONFIG empty_store ''C1'' cold_start_preprocessed
                     = Inr r'" "connected r'"
      "hashes r' = (hashes empty_store)(stats_key ''C1'' :=
              AList.update ''last_tx_timestamp'' (RInt 1707580000)
                (AList.update ''avg_amount''
                   (RFloat (rolling_avg_alpha FEATURE_CONFIG * 100
                            + (1 - rolling_avg_alpha FEATURE_CONFIG) * previous_average empty_store ''C1''))
                   (hashes empty_store (stats_key ''C1''))))"
    by (auto simp: cold_start_preprocessed_def cold_start_event_def as_real_def as_int_def)
  note r' = this
  have "hashes r' (stats_key ''C1'') =
          AList.update ''last_tx_timestamp'' (RInt 1707580000)
            (AList.update ''avg_amount'' (RFloat (155/2)) (hashes empty_store (stats_key ''C1'')))"
    by (simp add: r'(3) p FEATURE_CONFIG_def)
  then have "hashes r' (stats_key ''C1'') =
          [(''avg_amount'', RFloat (155/2)), (''last_tx_timestamp'', RInt 1707580000)]"
    by (simp add: empty_store_def)
  with r'(1,2) show ?thesis by blast
qed

text \<open>
  C3.  Cold start, as the code computes it when the local zone is UTC: on the empty store
  the event of amount 100 for card C1 at 1707580000 (2024-02-10 15:46:40 UTC, a Saturday)
  gives zero counts, \<open>time_since_last_tx = 0\<close>, \<open>avg_tx_amount_30d = 75\<close>, ratio 1.333,
  deviation 0.333, \<open>hour_of_day = 15\<close>, \<open>day_of_week = 5\<close>, \<open>is_weekend = 1\<close>,
  \<open>is_night = 0\<close>; after the state update the store holds the average 77.5 and the
  last time stamp 1707580000.
\<close>

theorem cold_start_scenario:
  assumes "utc_offset L 1707580000 = 0"
  shows "preprocess L (TransactionPreprocessor 99) (PDict cold_start_event)
           = Inr cold_start_preprocessed \<and>
         extract_features L FEATURE_CONFIG empty_store cold_start_preprocessed
           = Inr cold_start_features \<and>
         map_of cold_start_features ''tx_count_10m'' = Some (PInt 0) \<and>
         map_of cold_start_features ''tx_count_1h'' = Some (PInt 0) \<and>
         map_of cold_start_features ''tx_count_24h'' = Some (PInt 0) \<and>
         map_of cold_start_features ''time_since_last_tx'' = Some (PInt 0) \<and>
         map_of cold_start_features ''avg_tx_amount_30d'' = Some (PFloat 75) \<and>
         map_of cold_start_features ''amount_vs_avg_ratio'' = Some (PFloat (1333/1000)) \<and>
         map_of cold_start_features ''amount_deviation'' = Some (PFloat (333/1000)) \<and>
         map_of cold_start_features ''hour_of_day'' = Some (PInt 15) \<and>
         map_of cold_start_features ''day_of_week'' = Some (PInt 5) \<and>
         map_of cold_start_features ''is_weekend'' = Some (PInt 1) \<and>
         map_of cold_start_features ''is_night'' = Some (PInt 0) \<and>
         (\<exists>r'. update_card_state L FEATURE_CONFIG empty_store ''C1'' cold_start_preprocessed
                 = Inr r' \<and>
               process_message L empty_store (PDict cold_start_event) = (True, r') \<and>
               get_rolling_average r' ''C1'' = Some (155/2) \<and>
               get_last_transaction_timestamp r' ''C1'' = Some 1707580000)"
proof -
  from cold_start_update[of L] obtain r' where
    r': "update_card_state L FEATURE_CONFIG empty_store ''C1'' cold_start_preprocessed = Inr r'"
        "connected r'"
        "hashes r' (stats_key ''C1'') =
          [(''avg_amount'', RFloat (155/2)), (''last_tx_timestamp'', RInt 1707580000)]"
    by blast
  have cid: "dict_get cold_start_event ''card_id'' (PStr []) = PStr ''C1''"
    by (simp add: dict_get_def cold_start_event_def)
  have ap: "amount_clip_percentile FEATURE_CONFIG = 99"
    by (simp add: FEATURE_CONFIG_def)
  have pm: "process_message L empty_store (PDict cold_start_event) = (True, r')"
    unfolding process_message_def
    by (simp add: ap cid cold_start_preprocess cold_start_extract[OF assms] r'(1)
        py_str_def sliceable_def Let_def)
  have avg: "get_rolling_average r' ''C1'' = Some (155/2)"
    using r'(2) by (simp add: get_rolling_average_def r'(3) truthy_def float_of_reply_def Let_def)
  have ts: "get_last_transaction_timestamp r' ''C1'' = Some 1707580000"
    using r'(2)
    by (simp add: get_last_transaction_timestamp_def r'(3) truthy_def int_of_reply_def Let_def)
  have f: "map_of cold_start_features ''tx_count_10m'' = Some (PInt 0)"
          "map_of cold_start_features ''tx_count_1h'' = Some (PInt 0)"
          "map_of cold_start_features ''tx_count_24h'' = Some (PInt 0)"
          "map_of cold_start_features ''time_since_last_tx'' = Some (PInt 0)"
          "map_of cold_start_features ''avg_tx_amount_30d'' = Some (PFloat 75)"
          "map_of cold_start_features ''amount_vs_avg_ratio'' = Some (PFloat (1333/1000))"
          "map_of cold_start_features ''amount_deviation'' = Some (PFloat (333/1000))"
          "map_of cold_start_features ''hour_of_day'' = Some (PInt 15)"
          "map_of cold_start_features ''day_of_week'' = Some (PInt 5)"
          "map_of cold_start_features ''is_weekend'' = Some (PInt 1)"
          "map_of cold_start_features ''is_night'' = Some (PInt 0)"
    by (simp_all add: cold_start_features_def)
  from r'(1) pm avg ts
  have last: "\<exists>r'. update_card_state L FEATURE_CONFIG empty_store ''C1'' cold_start_preprocessed
                 = Inr r' \<and>
               process_message L empty_store (PDict cold_start_event) = (True, r') \<and>
               get_rolling_average r' ''C1'' = Some (155/2) \<and>
               get_last_transaction_timestamp r' ''C1'' = Some 1707580000"
    by blast
  show ?thesis
    using cold_start_preprocess[of L 99] cold_start_extract[OF assms] f last
    by (intro conjI)
qed

theorem cold_start_scenario_witness:
  "utc_offset utc_lib 1707580000 = 0 \<and>
   extract_features utc_lib FEATURE_CONFIG empty_store cold_start_preprocessed
     = Inr cold_start_features \<and>
   fst (process_message utc_lib empty_store (PDict cold_start_event)) \<and>
   get_rolling_average (snd (process_message utc_lib empty_store (PDict cold_start_event))) ''C1''
     = Some (155/2) \<and>
   get_last_transaction_timestamp
     (snd (process_message utc_lib empty_store (PDict cold_start_event))) ''C1''
     = Some 1707580000"
proof -
  have u: "utc_offset utc_lib 1707580000 = 0" by (simp add: utc_lib_def)
  from cold_start_scenario[OF u] u show ?thesis by auto
qed

text \<open>The hour claimed for this event, 12, is not the hour of 1707580000 in UTC.\<close>

theorem cold_start_hour_counterexample:
  "extract_features utc_lib FEATURE_CONFIG empty_store cold_start_preprocessed
     = Inr cold_start_features \<and>
   map_of cold_start_features ''hour_of_day'' = Some (PInt 15) \<and>
   map_of cold_start_features ''hour_of_day'' \<noteq> Some (PInt 12)"
proof -
  have "utc_offset utc_lib 1707580000 = 0" by (simp add: utc_lib_def)
  from cold_start_extract[OF this] show ?thesis
    by (simp add: cold_start_features_def)
qed

section \<open>Amount normalisation\<close>

text \<open>
  The specification's rounding, a tie going away from zero, is not what the code does: an
  amount of 0.125 comes out as 0.12, not 0.13.  And since the amount is rounded after it
  is clipped, a clip value that is not a whole number of cents can be exceeded: with the
  clip value 0.136 an amount of 1 comes out as 0.14.
\<close>

lemma round_eighth: "py_round (1/8) 2 = 12/100"
  by (simp add: py_round_def round_half_even_def Let_def)

lemma round_136: "py_round (17/125) 2 = 7/50"
  by (simp add: py_round_def round_half_even_def Let_def)

theorem half_cent_rounding_counterexample:
  "preprocess utc_lib (TransactionPreprocessor 99)
      (PDict (AList.update ''amount'' (PFloat (1/8)) cold_start_event))
     = Inr (AList.update ''amount'' (PFloat (12/100)) cold_start_preprocessed) \<and>
   spec_normalize_amount 10000 (1/8) = 13/100 \<and>
   PFloat (12/100) \<noteq> PFloat (spec_normalize_amount 10000 (1/8)) \<and>
   preprocess utc_lib ((TransactionPreprocessor 99)\<lparr>amount_clip_value := 136/1000\<rparr>)
      (PDict (AList.update ''amount'' (PFloat 1) cold_start_event))
     = Inr (AList.update ''amount'' (PFloat (14/100)) cold_start_preprocessed) \<and>
   amount_clip_value ((TransactionPreprocessor 99)\<lparr>amount_clip_value := 136/1000\<rparr>) < 14/100"
proof -
  have n: "normalize_amount (TransactionPreprocessor 99) (Finite (1/8)) = Finite (12/100)"
    by (simp add: normalize_amount_Finite TransactionPreprocessor_def round_eighth)
  have s: "spec_normalize_amount 10000 (1/8) = 13/100"
    by (simp add: spec_normalize_amount_def spec_round_half_away_def)
  have c: "normalize_amount ((TransactionPreprocessor 99)\<lparr>amount_clip_value := 136/1000\<rparr>)
             (Finite 1) = Finite (14/100)"
    by (simp add: normalize_amount_Finite round_136)
  have a: "preprocess utc_lib (TransactionPreprocessor 99)
      (PDict (AList.update ''amount'' (PFloat (1/8)) cold_start_event))
     = Inr (AList.update ''amount'' (PFloat (12/100)) cold_start_preprocessed)"
    using preprocess_event_amount[of utc_lib "TransactionPreprocessor 99" "Finite (1/8)"]
    unfolding n by simp
  have b: "preprocess utc_lib ((TransactionPreprocessor 99)\<lparr>amount_clip_value := 136/1000\<rparr>)
      (PDict (AList.update ''amount'' (PFloat 1) cold_start_event))
     = Inr (AList.update ''amount'' (PFloat (14/100)) cold_start_preprocessed)"
    using preprocess_event_amount[of utc_lib
        "(TransactionPreprocessor 99)\<lparr>amount_clip_value := 136/1000\<rparr>" "Finite 1"]
    unfolding c by simp
  from a b s show ?thesis by simp
qed

text \<open>
  C4.  For every input with a finite amount that \<^verbatim>\<open>preprocess\<close> accepts, whatever the clip
  value, the output amount is the absolute value of the input amount, clipped at the clip
  value and rounded to two decimals by \<^verbatim>\<open>round\<close>, where a tie goes to the even neighbour; it
  is positive and at most the rounded clip value, hence at most the clip value when that
  is a whole number of cents.  An input with a finite amount whose normalised amount is 0
  is never accepted; when it passes the schema check and the casts, the error is
  "Amount must be positive", or the error of the time stamp that cannot be parsed.
\<close>

theorem preprocess_amount_normalized:
  "(preprocess L P (PDict d) = Inr out \<and> map_of d ''amount'' = Some v \<and>
    py_float L v = Inr (Finite x) \<longrightarrow>
      map_of out ''amount'' = Some (PFloat (py_round (min \<bar>x\<bar> (amount_clip_value P)) 2)) \<and>
      0 < py_round (min \<bar>x\<bar> (amount_clip_value P)) 2 \<and>
      py_round (min \<bar>x\<bar> (amount_clip_value P)) 2 \<le> py_round (amount_clip_value P) 2 \<and>
      (py_round (amount_clip_value P) 2 = amount_clip_value P \<longrightarrow>
         py_round (min \<bar>x\<bar> (amount_clip_value P)) 2 \<le> amount_clip_value P)) \<and>
   (map_of d ''amount'' = Some v \<and> py_float L v = Inr (Finite x) \<and>
    py_round (min \<bar>x\<bar> (amount_clip_value P)) 2 = 0 \<longrightarrow>
      (\<exists>e. preprocess L P (PDict d) = Inl e) \<and>
      (validate_schema (PDict d) \<and> cast_types L (handle_missing_values d) = Inr t2 \<longrightarrow>
         (\<exists>k. k \<in> {AmountMustBePositive, UnableToParseTimestamp, InvalidTimestampType} \<and>
              preprocess L P (PDict d) = Inl (ValueError k))))"
proof -
  define c where "c = amount_clip_value P"
  have accepted: "map_of out ''amount'' = Some (PFloat (py_round (min \<bar>x\<bar> c) 2)) \<and>
                  0 < py_round (min \<bar>x\<bar> c) 2"
    if a: "preprocess L P (PDict d) = Inr out" and vd: "map_of d ''amount'' = Some v"
      and vx: "py_float L v = Inr (Finite x)" for out
  proof -
    from a obtain t2 f where
      t2: "cast_fields L (handle_missing_values d) = Inr t2"
      and f: "map_of t2 ''amount'' = Some (float_value f)"
      and out: "\<exists>n. out = AList.update ''timestamp'' (PInt n)
               (AList.update ''amount'' (float_value (normalize_amount P f)) t2)"
      and vr: "validate_ranges out = Inr ()"
      by (elim preprocess_Inr) blast
    from cast_fields_map_of(5)[OF t2] obtain va a' where
      va: "map_of (handle_missing_values d) ''amount'' = Some va" "py_float L va = Inr a'"
          "map_of t2 ''amount'' = Some (float_value a')"
      by blast
    from va(1) vd have "va = v"
      by (simp add: handle_missing_values_map_of OPTIONAL_FIELDS_def)
    with va(2,3) vx f have fx: "f = Finite x" by simp
    from out have m: "map_of out ''amount'' = Some (float_value (normalize_amount P f))"
      by (auto simp: update_conv')
    have pos: "\<not> pf_le (normalize_amount P f) (Finite 0)"
      by (rule validate_ranges_positive[OF vr m])
    from m pos show ?thesis
      by (simp add: fx normalize_amount_Finite c_def)
  qed
  have first: "map_of out ''amount'' = Some (PFloat (py_round (min \<bar>x\<bar> c) 2)) \<and>
      0 < py_round (min \<bar>x\<bar> c) 2 \<and>
      py_round (min \<bar>x\<bar> c) 2 \<le> py_round c 2 \<and>
      (py_round c 2 = c \<longrightarrow> py_round (min \<bar>x\<bar> c) 2 \<le> c)"
    if "preprocess L P (PDict d) = Inr out \<and> map_of d ''amount'' = Some v \<and>
        py_float L v = Inr (Finite x)"
    using accepted[of out] that normalize_amount_bound[of x c] by auto
  have second: "(\<exists>e. preprocess L P (PDict d) = Inl e) \<and>
      (validate_schema (PDict d) \<and> cast_types L (handle_missing_values d) = Inr t2 \<longrightarrow>
         (\<exists>k. k \<in> {AmountMustBePositive, UnableToParseTimestamp, InvalidTimestampType} \<and>
              preprocess L P (PDict d) = Inl (ValueError k)))"
    if z: "map_of d ''amount'' = Some v \<and> py_float L v = Inr (Finite x) \<and>
           py_round (min \<bar>x\<bar> c) 2 = 0"
  proof (intro conjI impI)
    show "\<exists>e. preprocess L P (PDict d) = Inl e"
    proof (cases "preprocess L P (PDict d)")
      case (Inl e)
      then show ?thesis by blast
    next
      case (Inr out)
      from accepted[OF Inr] z show ?thesis by simp
    qed
  next
    assume s: "validate_schema (PDict d) \<and> cast_types L (handle_missing_values d) = Inr t2"
    then have t2: "cast_fields L (handle_missing_values d) = Inr t2"
      by (simp add: cast_types_Inr_iff)
    from cast_fields_map_of(5)[OF t2] obtain va a' where
      va: "map_of (handle_missing_values d) ''amount'' = Some va" "py_float L va = Inr a'"
          "map_of t2 ''amount'' = Some (float_value a')"
      by blast
    from va(1) z have "va = v"
      by (simp add: handle_missing_values_map_of OPTIONAL_FIELDS_def)
    with va(2,3) z have am: "map_of t2 ''amount'' = Some (PFloat x)" by auto
    from cast_fields_map_of(6)[OF t2] obtain vt where
      vt: "map_of t2 ''timestamp'' = Some vt" "\<forall>n. vt \<noteq> PNonFinite n"
      by blast
    have n0: "normalize_amount P (Finite x) = Finite 0"
      using z by (simp add: normalize_amount_Finite c_def)
    have pre: "preprocess L P (PDict d) =
        bind_exc (parse_timestamp L vt) (\<lambda>timestamp.
          bind_exc (validate_ranges (AList.update ''timestamp'' (PInt timestamp)
                      (AList.update ''amount'' (PFloat 0) t2))) (\<lambda>u.
          Inr (AList.update ''timestamp'' (PInt timestamp)
                      (AList.update ''amount'' (PFloat 0) t2))))"
      using s am vt(1) by (simp add: preprocess_def Let_def n0 update_conv')
    have vr: "\<And>n. validate_ranges (AList.update ''timestamp'' (PInt n)
           (AList.update ''amount'' (PFloat 0) t2)) = Inl (ValueError AmountMustBePositive)"
      by (simp add: validate_ranges_def update_conv')
    from parse_timestamp_cases[OF vt(2), of L]
    show "\<exists>k. k \<in> {AmountMustBePositive, UnableToParseTimestamp, InvalidTimestampType} \<and>
              preprocess L P (PDict d) = Inl (ValueError k)"
      unfolding pre by (auto simp: vr)
  qed
  from first second show ?thesis unfolding c_def by blast
qed

theorem preprocess_amount_normalized_witness:
  "preprocess utc_lib ((TransactionPreprocessor 99)\<lparr>amount_clip_value := 5000\<rparr>)
      (PDict (AList.update ''amount'' (PFloat (- 7000)) cold_start_event))
     = Inr (AList.update ''amount'' (PFloat 5000) cold_start_preprocessed) \<and>
   map_of (AList.update ''amount'' (PFloat (- 7000)) cold_start_event) ''amount''
     = Some (PFloat (- 7000)) \<and>
   py_float utc_lib (PFloat (- 7000)) = Inr (Finite (- 7000)) \<and>
   map_of (AList.update ''amount'' (PFloat 5000) cold_start_preprocessed) ''amount''
     = Some (PFloat (py_round (min \<bar>- 7000\<bar> 5000) 2)) \<and>
   0 < py_round (min \<bar>- 7000\<bar> 5000) 2 \<and>
   py_round 5000 2 = 5000 \<and>
   py_round (min \<bar>- 7000\<bar> 5000) 2 \<le> 5000 \<and>
   map_of (AList.update ''amount'' (PFloat (1/1000)) cold_start_event) ''amount''
     = Some (PFloat (1/1000)) \<and>
   py_float utc_lib (PFloat (1/1000)) = Inr (Finite (1/1000)) \<and>
   py_round (min \<bar>1/1000\<bar> 10000) 2 = 0 \<and>
   validate_schema (PDict (AList.update ''amount'' (PFloat (1/1000)) cold_start_event)) \<and>
   cast_types utc_lib
      (handle_missing_values (AList.update ''amount'' (PFloat (1/1000)) cold_start_event))
     = Inr (AList.update ''amount'' (PFloat (1/1000)) cold_start_preprocessed) \<and>
   (\<exists>e. preprocess utc_lib (TransactionPreprocessor 99)
          (PDict (AList.update ''amount'' (PFloat (1/1000)) cold_start_event)) = Inl e) \<and>
   (\<exists>k. k \<in> {AmountMustBePositive, UnableToParseTimestamp, InvalidTimestampType} \<and>
        preprocess utc_lib (TransactionPreprocessor 99)
          (PDict (AList.update ''amount'' (PFloat (1/1000)) cold_start_event))
        = Inl (ValueError k))"
proof -
  let ?P = "(TransactionPreprocessor 99)\<lparr>amount_clip_value := 5000\<rparr>"
  let ?e = "AList.update ''amount'' (PFloat (- 7000)) cold_start_event"
  let ?o = "AList.update ''amount'' (PFloat 5000) cold_start_preprocessed"
  let ?z = "AList.update ''amount'' (PFloat (1/1000)) cold_start_event"
  let ?t = "AList.update ''amount'' (PFloat (1/1000)) cold_start_preprocessed"
  have r: "py_round 5000 2 = 5000"
    by (simp add: py_round_def round_half_even_def Let_def)
  have n: "normalize_amount ?P (Finite (- 7000)) = Finite 5000"
    by (simp add: normalize_amount_Finite r)
  have a: "preprocess utc_lib ?P (PDict ?e) = Inr ?o"
    using preprocess_event_amount[of utc_lib ?P "Finite (- 7000)"] unfolding n by simp
  have e: "map_of ?e ''amount'' = Some (PFloat (- 7000))"
    by (simp add: cold_start_event_def)
  have f: "py_float utc_lib (PFloat (- 7000)) = Inr (Finite (- 7000))"
    by (simp add: py_float_def)
  have c: "amount_clip_value ?P = 5000" by simp
  from preprocess_amount_normalized[of utc_lib ?P ?e ?o "PFloat (- 7000)" "- 7000",
      THEN conjunct1, rule_format, OF conjI[OF a conjI[OF e f]]]
  have one: "map_of ?o ''amount'' = Some (PFloat (py_round (min \<bar>- 7000\<bar> 5000) 2))"
            "0 < py_round (min \<bar>- 7000\<bar> 5000) 2"
            "py_round (min \<bar>- 7000\<bar> 5000) 2 \<le> 5000"
    unfolding c using r by simp_all
  have ze: "map_of ?z ''amount'' = Some (PFloat (1/1000))"
    by (simp add: cold_start_event_def)
  have zf: "py_float utc_lib (PFloat (1/1000)) = Inr (Finite (1/1000))"
    by (simp add: py_float_def)
  have zr: "py_round (min \<bar>1/1000\<bar> 10000) 2 = 0"
    by (simp add: py_round_def round_half_even_def Let_def)
  have zc: "amount_clip_value (TransactionPreprocessor 99) = 10000"
    by (simp add: TransactionPreprocessor_def)
  have zs: "validate_schema (PDict ?z)"
    by (simp add: validate_schema_def cold_start_event_def REQUIRED_FIELDS_def absent_def)
  have zh: "handle_missing_values ?z = ?t"
    by (simp add: handle_missing_values_def OPTIONAL_FIELDS_def cold_start_event_def
        cold_start_preprocessed_def absent_def)
  have zt: "cast_types utc_lib (handle_missing_values ?z) = Inr ?t"
    unfolding zh
    by (simp add: cast_types_def cast_fields_def cold_start_event_def cold_start_preprocessed_def
        py_str_def py_float_def cast_timestamp_def cast_optional_float_def dict_get_def Let_def)
  from preprocess_amount_normalized[of utc_lib "TransactionPreprocessor 99" ?z _
      "PFloat (1/1000)" "1/1000" ?t, THEN conjunct2, rule_format, unfolded zc,
      OF conjI[OF ze conjI[OF zf zr]]]
  have two: "\<exists>e. preprocess utc_lib (TransactionPreprocessor 99) (PDict ?z) = Inl e"
            "\<exists>k. k \<in> {AmountMustBePositive, UnableToParseTimestamp, InvalidTimestampType} \<and>
                 preprocess utc_lib (TransactionPreprocessor 99) (PDict ?z) = Inl (ValueError k)"
    using zs zt by blast+
  from a e f one r ze zf zr zs zt two show ?thesis by (intro conjI)
qed

section \<open>Idempotence of preprocessing\<close>

text \<open>
  C5.  The preprocessor accepts an amount that is not a number.  Every comparison with
  \<^verbatim>\<open>nan\<close> is false, so the amount is neither made positive nor clipped, and the check
  "Amount must be positive" lets it through: the event with the amount \<^verbatim>\<open>nan\<close> is
  accepted, and the record returned has the amount \<^verbatim>\<open>nan\<close>.  A second pass accepts that
  record and returns it field for field, but \<^verbatim>\<open>round\<close> has made its amount anew, and a
  \<^verbatim>\<open>nan\<close> is not equal to another: \<open>==\<close> between the results of the two passes is false.
\<close>

theorem preprocess_nan_amount_not_equal:
  "preprocess utc_lib (TransactionPreprocessor 99)
      (PDict (AList.update ''amount'' (PNonFinite NaN) cold_start_event))
     = Inr (AList.update ''amount'' (PNonFinite NaN) cold_start_preprocessed) \<and>
   preprocess utc_lib (TransactionPreprocessor 99)
      (PDict (AList.update ''amount'' (PNonFinite NaN) cold_start_preprocessed))
     = Inr (AList.update ''amount'' (PNonFinite NaN) cold_start_preprocessed) \<and>
   map_of (AList.update ''amount'' (PNonFinite NaN) cold_start_preprocessed) ''amount''
     = Some (PNonFinite NaN) \<and>
   \<not> py_eq (PNonFinite NaN) (PNonFinite NaN)"
proof -
  have a: "preprocess utc_lib (TransactionPreprocessor 99)
      (PDict (AList.update ''amount'' (PNonFinite NaN) cold_start_event))
     = Inr (AList.update ''amount'' (PNonFinite NaN) cold_start_preprocessed)"
    using preprocess_event_amount[of utc_lib "TransactionPreprocessor 99" "NonFinite NaN"]
    by (simp add: normalize_amount_NaN)
  have b: "preprocess utc_lib (TransactionPreprocessor 99)
      (PDict (AList.update ''amount'' (PNonFinite NaN) cold_start_preprocessed))
     = Inr (AList.update ''amount'' (PNonFinite NaN) cold_start_preprocessed)"
    by (rule preprocess_twice[OF a])
  have c: "map_of (AList.update ''amount'' (PNonFinite NaN) cold_start_preprocessed) ''amount''
     = Some (PNonFinite NaN)"
    by (simp add: update_conv')
  have d: "\<not> py_eq (PNonFinite NaN) (PNonFinite NaN)"
    by (simp add: py_eq_def number_of_def)
  from a b c d show ?thesis by (intro conjI)
qed

section \<open>Trimming the history\<close>

text \<open>
  C6.  \<^verbatim>\<open>add_to_transaction_history\<close> with time stamp \<open>t\<close> is meant to drop the entries
  older than 24 hours, so that an entry stored under exactly \<open>t - 86400\<close> stays.  The
  code passes \<open>t - 86400\<close> as an inclusive upper bound: evaluated on a history holding one
  entry with exactly that score, the entry is gone after the call.
\<close>

theorem add_to_transaction_history_trims_boundary_entry:
  "add_to_transaction_history utc_lib
      (empty_store\<lparr>zsets := (\<lambda>key. [(''old'', 1707580000 - 86400)])\<rparr>)
      ''C1'' cold_start_event 86400
   = (True, empty_store\<lparr>zsets := (\<lambda>key. [(''old'', 1707580000 - 86400)])
                                   (tx_history_key ''C1'' := [(''{}'', 1707580000)]),
                         ttls := (\<lambda>key. None)(tx_history_key ''C1'' \<mapsto> 86400)\<rparr>)"
  by (simp add: add_to_transaction_history_def Let_def cold_start_event_def as_int_def
      empty_store_def utc_lib_def)

section \<open>Schema failures\<close>

lemma validate_schema_absent:
  assumes "field \<in> set REQUIRED_FIELDS" and "absent m field"
  shows "\<not> validate_schema (PDict m)"
  using assms by (auto simp: validate_schema_def Let_def filter_empty_conv)

text \<open>
  C7.  A message in which a required field is missing or null: \<^verbatim>\<open>preprocess\<close> raises the
  schema error, \<^verbatim>\<open>_process_message\<close> returns False with the store exactly as it was, and
  the consumer loop adds one to \<open>messages_failed\<close> and changes nothing else.
\<close>

theorem missing_required_field_rejected:
  assumes "field \<in> set REQUIRED_FIELDS" and "absent m field"
  shows "preprocess L P (PDict m) = Inl (ValueError InvalidTransaction) \<and>
         process_message L r (PDict m) = (False, r) \<and>
         consume_one L c (PDict m) = c\<lparr>messages_failed := messages_failed c + 1\<rparr> \<and>
         (running c \<longrightarrow> consume L c [PDict m] = c\<lparr>messages_failed := messages_failed c + 1\<rparr>)"
proof -
  have p: "\<And>P. preprocess L P (PDict m) = Inl (ValueError InvalidTransaction)"
    using validate_schema_absent[OF assms] by (simp add: preprocess_def)
  have m: "\<And>r. process_message L r (PDict m) = (False, r)"
    by (simp add: process_message_def Let_def p)
  show ?thesis
    by (simp add: p m consume_one_def Let_def)
qed

theorem missing_required_field_rejected_witness:
  "''card_id'' \<in> set REQUIRED_FIELDS \<and>
   absent [(''transaction_id'', PStr ''x''), (''amount'', PInt 1), (''merchant_id'', PStr ''m''),
           (''timestamp'', PInt 1707580000)] ''card_id'' \<and>
   consume utc_lib
     \<lparr>running = True, messages_processed = 0, messages_failed = 0, feature_store = empty_store\<rparr>
     [PDict [(''transaction_id'', PStr ''x''), (''amount'', PInt 1), (''merchant_id'', PStr ''m''),
             (''timestamp'', PInt 1707580000)]]
   = \<lparr>running = True, messages_processed = 0, messages_failed = 1, feature_store = empty_store\<rparr>"
proof -
  have f: "''card_id'' \<in> set REQUIRED_FIELDS" by (simp add: REQUIRED_FIELDS_def)
  have a: "absent [(''transaction_id'', PStr ''x''), (''amount'', PInt 1),
                   (''merchant_id'', PStr ''m''), (''timestamp'', PInt 1707580000)] ''card_id''"
    by (simp add: absent_def)
  from missing_required_field_rejected[OF f a, of utc_lib "TransactionPreprocessor 99" empty_store
      "\<lparr>running = True, messages_processed = 0, messages_failed = 0, feature_store = empty_store\<rparr>"]
    f a
  show ?thesis by simp
qed

section \<open>A stored average of zero\<close>

lemma py_round_75: "py_round 75 2 = 75"
  by (simp add: py_round_def round_half_even_def Let_def)

text \<open>
  C8.  When the average stored for a card is exactly 0 (the field is there and reads as
  zero), the extractor computes the rolling features against the default 75:
  \<open>avg_tx_amount_30d\<close> is 75, and the deviation and the ratio are those of the amount
  against 75, not the fallback values 0 and 1.
\<close>

theorem zero_average_replaced_by_default:
  assumes "connected r"
    and "map_of (hashes r (stats_key card_id)) ''avg_amount'' = Some v"
    and "v = RFloat 0 \<or> v = RInt 0"
  shows "get_rolling_average r card_id = Some 0 \<and>
         compute_rolling_features FEATURE_CONFIG r card_id amount =
           [(''avg_tx_amount_30d'', PFloat 75),
            (''amount_deviation'', PFloat (py_round ((amount - 75) / 75) 3)),
            (''amount_vs_avg_ratio'', PFloat (py_round (amount / 75) 3))]"
proof -
  have g: "get_rolling_average r card_id = Some 0"
    using assms by (auto simp: get_rolling_average_def Let_def truthy_def float_of_reply_def)
  show ?thesis
    by (simp add: g compute_rolling_features_def Let_def FEATURE_CONFIG_def py_round_75
        py_round_val_def)
qed

theorem zero_average_replaced_by_default_witness:
  "connected (empty_store\<lparr>hashes := (\<lambda>key. [(''avg_amount'', RFloat 0)])\<rparr>) \<and>
   map_of (hashes (empty_store\<lparr>hashes := (\<lambda>key. [(''avg_amount'', RFloat 0)])\<rparr>)
             (stats_key ''C1'')) ''avg_amount'' = Some (RFloat 0) \<and>
   compute_rolling_features FEATURE_CONFIG
       (empty_store\<lparr>hashes := (\<lambda>key. [(''avg_amount'', RFloat 0)])\<rparr>) ''C1'' 150 =
     [(''avg_tx_amount_30d'', PFloat 75),
      (''amount_deviation'', PFloat 1),
      (''amount_vs_avg_ratio'', PFloat 2)]"
proof -
  have c: "connected (empty_store\<lparr>hashes := (\<lambda>key. [(''avg_amount'', RFloat 0)])\<rparr>)"
    by (simp add: empty_store_def)
  have s: "map_of (hashes (empty_store\<lparr>hashes := (\<lambda>key. [(''avg_amount'', RFloat 0)])\<rparr>)
                     (stats_key ''C1'')) ''avg_amount'' = Some (RFloat 0)"
    by simp
  have r: "py_round ((150 - 75) / 75) 3 = 1" "py_round (150 / 75) 3 = 2"
    by (simp_all add: py_round_def round_half_even_def Let_def)
  from zero_average_replaced_by_default[OF c s, of 150] c s r show ?thesis
    by simp
qed

section \<open>The unique merchant count\<close>

text \<open>
  C9.  \<^verbatim>\<open>get_unique_merchant_count\<close> does not look at its window argument: any two windows
  give the same count, which on a reachable store is the cardinality of the card's
  merchant set; the only time limit on that set is the 24 hour expiry that
  \<^verbatim>\<open>add_merchant_to_set\<close> puts on its key.
\<close>

theorem get_unique_merchant_count_ignores_window:
  "get_unique_merchant_count r card_id w1 = get_unique_merchant_count r card_id w2 \<and>
   (connected r \<longrightarrow>
      get_unique_merchant_count r card_id w1 = int (card (sets r (merchants_key card_id))) \<and>
      ttls (snd (add_merchant_to_set r card_id merchant_id 86400)) (merchants_key card_id)
        = Some 86400)"
  by (simp add: get_unique_merchant_count_def add_merchant_to_set_def Let_def)

theorem get_unique_merchant_count_ignores_window_witness:
  "connected (snd (add_merchant_to_set (snd (add_merchant_to_set empty_store ''C1'' ''M1'' 86400))
                     ''C1'' ''M2'' 86400)) \<and>
   get_unique_merchant_count
     (snd (add_merchant_to_set (snd (add_merchant_to_set empty_store ''C1'' ''M1'' 86400))
            ''C1'' ''M2'' 86400)) ''C1'' 600 = 2 \<and>
   get_unique_merchant_count
     (snd (add_merchant_to_set (snd (add_merchant_to_set empty_store ''C1'' ''M1'' 86400))
            ''C1'' ''M2'' 86400)) ''C1'' 86400 = 2"
  using get_unique_merchant_count_ignores_window
    [of "snd (add_merchant_to_set (snd (add_merchant_to_set empty_store ''C1'' ''M1'' 86400))
               ''C1'' ''M2'' 86400)" "''C1''" 600 86400 "''M3''"]
  by (simp add: add_merchant_to_set_def empty_store_def Let_def)

section \<open>Undecodable history entries\<close>

text \<open>
  An entry on which \<^verbatim>\<open>json.loads\<close> raises something other than \<^verbatim>\<open>JSONDecodeError\<close> is not
  skipped: a text of a thousand opening brackets is not valid JSON, the decoder gives up
  on it with \<^verbatim>\<open>RecursionError\<close>, and the history of the card comes back empty although the
  entry next to it decodes.  With the entry deleted, the other one is returned.
\<close>

theorem deeply_nested_entry_counterexample:
  "connected (empty_store\<lparr>zsets := (\<lambda>key. [(replicate 1000 (CHR ''[''), 1707579900),
                                               (''{}'', 1707580000)])\<rparr>) \<and>
   json_loads nesting_lib (replicate 1000 (CHR ''['')) = Inl RecursionError \<and>
   json_loads nesting_lib ''{}'' = Inr (PDict [(''timestamp'', PInt 1707580000)]) \<and>
   get_transaction_history nesting_lib
     (empty_store\<lparr>zsets := (\<lambda>key. [(replicate 1000 (CHR ''[''), 1707579900),
                                      (''{}'', 1707580000)])\<rparr>)
     ''C1'' 600 1707580300 = [] \<and>
   get_transaction_history nesting_lib
     (empty_store\<lparr>zsets := (\<lambda>key. [(''{}'', 1707580000)])\<rparr>)
     ''C1'' 600 1707580300 = [PDict [(''timestamp'', PInt 1707580000)]]"
  by (simp add: get_transaction_history_def decode_replies_def nesting_lib_def utc_lib_def
      empty_store_def Let_def nested_text_neq)

text \<open>
  C10.  \<^verbatim>\<open>get_transaction_history\<close> skips the entries on which \<^verbatim>\<open>json.loads\<close> raises
  \<^verbatim>\<open>JSONDecodeError\<close>.  When the store is reachable and every entry in range is valid
  UTF-8 that decodes or raises \<^verbatim>\<open>JSONDecodeError\<close>, the call returns the decodings of
  exactly the decodable entries in range, in the order the store lists them; in every
  other case it returns the empty list.  It returns in every case, and deleting the
  skipped entries from the store beforehand never changes what it returns.
\<close>

theorem get_transaction_history_skips_undecodable:
  "get_transaction_history L r card_id w t =
     (if connected r \<and> list_all (decodes_or_skips L) (members_in_range r card_id w t)
      then List.map_filter (decoded L) (members_in_range r card_id w t) else []) \<and>
   get_transaction_history L (without_skipped L r card_id) card_id w t =
     get_transaction_history L r card_id w t"
  by (simp only: get_transaction_history_without_skipped
      get_transaction_history_characterised[symmetric] simp_thms)

theorem get_transaction_history_skips_undecodable_witness:
  "connected (empty_store\<lparr>zsets := (\<lambda>key. [(''junk'', 1707579900), (''{}'', 1707580000),
                                               (''{}'', 1707590000)])\<rparr>) \<and>
   members_in_range
     (empty_store\<lparr>zsets := (\<lambda>key. [(''junk'', 1707579900), (''{}'', 1707580000),
                                      (''{}'', 1707590000)])\<rparr>) ''C1'' 600 1707580300
     = [''junk'', ''{}''] \<and>
   list_all (decodes_or_skips decoding_lib) [''junk'', ''{}''] \<and>
   skipped decoding_lib ''junk'' \<and>
   get_transaction_history decoding_lib
     (empty_store\<lparr>zsets := (\<lambda>key. [(''junk'', 1707579900), (''{}'', 1707580000),
                                      (''{}'', 1707590000)])\<rparr>)
     ''C1'' 600 1707580300
   = [PDict [(''timestamp'', PInt 1707580000)]] \<and>
   get_transaction_history decoding_lib
     (without_skipped decoding_lib
        (empty_store\<lparr>zsets := (\<lambda>key. [(''junk'', 1707579900), (''{}'', 1707580000),
                                         (''{}'', 1707590000)])\<rparr>) ''C1'')
     ''C1'' 600 1707580300
   = [PDict [(''timestamp'', PInt 1707580000)]]"
proof -
  let ?r = "empty_store\<lparr>zsets := (\<lambda>key. [(''junk'', 1707579900), (''{}'', 1707580000),
                                            (''{}'', 1707590000)])\<rparr>"
  have c: "connected ?r" by (simp add: empty_store_def)
  have m: "members_in_range ?r ''C1'' 600 1707580300 = [''junk'', ''{}'']"
    by (simp add: members_in_range_def)
  have d: "list_all (decodes_or_skips decoding_lib) [''junk'', ''{}'']"
    by (simp add: decodes_or_skips_def decoding_lib_def utc_lib_def)
  have s: "skipped decoding_lib ''junk''"
    by (simp add: skipped_def decoding_lib_def utc_lib_def)
  have v: "List.map_filter (decoded decoding_lib) [''junk'', ''{}'']
             = [PDict [(''timestamp'', PInt 1707580000)]]"
    by (simp add: List.map_filter_simps decoded_def decoding_lib_def utc_lib_def)
  from get_transaction_history_skips_undecodable[of decoding_lib ?r "''C1''" 600 1707580300]
  have "get_transaction_history decoding_lib ?r ''C1'' 600 1707580300
          = [PDict [(''timestamp'', PInt 1707580000)]]"
       "get_transaction_history decoding_lib (without_skipped decoding_lib ?r ''C1'')
           ''C1'' 600 1707580300
          = [PDict [(''timestamp'', PInt 1707580000)]]"
    unfolding m using c d v by simp_all
  with c m d s show ?thesis by (intro conjI)
qed

end
